theory Spec2Isabelle
  imports Complex_Main "HOL-Library.Sublist" "HOL-Library.Char_ord" "HOL-Library.List_Lexorder"
begin

section \<open>JavaScript values used by the false-positive engine\<close>

text \<open>
  Finite numbers are modelled exactly, as rationals (\<^typ>\<open>rat\<close>): the weights 0.35, 0.25, ...
  and the cut-offs 0.6, 0.3 are the decimal fractions themselves, and sums are not rounded.
  Strings are \<^typ>\<open>string\<close>, one \<^typ>\<open>char\<close> per code unit of the Latin-1 range, so that the
  accented letters of the source (the accented i of the fifth truthy token, the accented o
  of the labels) are single characters.
\<close>

definition toLowerChar :: "char \<Rightarrow> char" where
  "toLowerChar c =
     (let n = (of_char c :: nat)
      in if (65 \<le> n \<and> n \<le> 90) \<or> (192 \<le> n \<and> n \<le> 222 \<and> n \<noteq> 215)
         then char_of (n + 32) else c)"

definition toLowerCase :: "string \<Rightarrow> string" where
  "toLowerCase s = map toLowerChar s"

text \<open>\<^verbatim>\<open>String.prototype.includes\<close>: substring containment.\<close>

fun str_includes :: "string \<Rightarrow> string \<Rightarrow> bool" where
  "str_includes [] kw = (kw = [])"
| "str_includes (c # cs) kw = (prefix kw (c # cs) \<or> str_includes cs kw)"

text \<open>\<^verbatim>\<open>Array.prototype.includes\<close> on an array of strings.\<close>

definition arrayIncludes :: "string list \<Rightarrow> string \<Rightarrow> bool" where
  "arrayIncludes xs x = (x \<in> set xs)"

text \<open>Decimal digits of a natural number, most significant first.\<close>

fun showNat :: "nat \<Rightarrow> string" where
  "showNat n = (if n < 10 then [char_of (48 + n)] else showNat (n div 10) @ [char_of (48 + n mod 10)])"

declare showNat.simps [simp del]

text \<open>
  \<^verbatim>\<open>Number.prototype.toFixed(2)\<close>: a sign for a negative number, then the magnitude
  rounded to the nearest hundredth (the larger one on a tie), with two fraction digits.
  (For magnitudes of 10^21 and more JavaScript switches to exponent notation; durations in
  minutes are far below.)
\<close>

definition toFixed2 :: "rat \<Rightarrow> string" where
  "toFixed2 x =
     (let n = nat \<lfloor>\<bar>x\<bar> * 100 + 1 / 2\<rfloor>;
          body = showNat (n div 100) @ ''.'' @ showNat (n mod 100 div 10) @ showNat (n mod 10)
      in if x < 0 then ''-'' @ body else body)"

subsection \<open>Numbers\<close>

text \<open>A JavaScript number: NaN, one of the two infinities, or a finite number.\<close>

datatype number = NaN | NegInfinity | Num rat | Infinity

text \<open>The comparison operators; every comparison with NaN is false.\<close>

fun jsLt :: "number \<Rightarrow> number \<Rightarrow> bool" where
  "jsLt NaN b = False"
| "jsLt a NaN = False"
| "jsLt Infinity b = False"
| "jsLt a NegInfinity = False"
| "jsLt NegInfinity b = True"
| "jsLt a Infinity = True"
| "jsLt (Num x) (Num y) = (x < y)"

definition jsGt :: "number \<Rightarrow> number \<Rightarrow> bool" where
  "jsGt a b = jsLt b a"

definition jsLe :: "number \<Rightarrow> number \<Rightarrow> bool" where
  "jsLe a b = (a \<noteq> NaN \<and> b \<noteq> NaN \<and> \<not> jsLt b a)"

definition jsGe :: "number \<Rightarrow> number \<Rightarrow> bool" where
  "jsGe a b = jsLe b a"

text \<open>Subtraction, addition, \<^verbatim>\<open>Math.abs\<close> and \<^verbatim>\<open>Math.min\<close>; NaN propagates through all of them.\<close>

fun jsSub :: "number \<Rightarrow> number \<Rightarrow> number" where
  "jsSub NaN b = NaN"
| "jsSub a NaN = NaN"
| "jsSub (Num x) (Num y) = Num (x - y)"
| "jsSub (Num x) Infinity = NegInfinity"
| "jsSub (Num x) NegInfinity = Infinity"
| "jsSub Infinity Infinity = NaN"
| "jsSub Infinity b = Infinity"
| "jsSub NegInfinity NegInfinity = NaN"
| "jsSub NegInfinity b = NegInfinity"

fun jsAdd :: "number \<Rightarrow> number \<Rightarrow> number" where
  "jsAdd NaN b = NaN"
| "jsAdd a NaN = NaN"
| "jsAdd (Num x) (Num y) = Num (x + y)"
| "jsAdd (Num x) b = b"
| "jsAdd Infinity NegInfinity = NaN"
| "jsAdd Infinity b = Infinity"
| "jsAdd NegInfinity Infinity = NaN"
| "jsAdd NegInfinity b = NegInfinity"

fun jsAbs :: "number \<Rightarrow> number" where
  "jsAbs NaN = NaN"
| "jsAbs NegInfinity = Infinity"
| "jsAbs Infinity = Infinity"
| "jsAbs (Num x) = Num \<bar>x\<bar>"

definition jsMin :: "number \<Rightarrow> number \<Rightarrow> number" where
  "jsMin a b = (if a = NaN \<or> b = NaN then NaN else if jsLt b a then b else a)"


text \<open>\<^verbatim>\<open>toFixed(2)\<close> on any number.\<close>

fun toFixedNumber :: "number \<Rightarrow> string" where
  "toFixedNumber NaN = ''NaN''"
| "toFixedNumber Infinity = ''Infinity''"
| "toFixedNumber NegInfinity = ''-Infinity''"
| "toFixedNumber (Num x) = toFixed2 x"

subsection \<open>The duration field\<close>

text \<open>
  The \<^verbatim>\<open>duration\<close> field of a stored problem.  Its declared type is \<^verbatim>\<open>number\<close>; a stored
  document may lack the field, and may hold a string in it.  A string is kept together
  with the number that JavaScript reads from it when it compares (\<^verbatim>\<open>"3"\<close> reads 3,
  \<^verbatim>\<open>"abc"\<close> reads NaN, the empty string reads 0).
\<close>

datatype duration_field = Absent | Number number | Text string number

datatype js_error = TypeError

text \<open>
  \<^verbatim>\<open>problem.duration || 0\<close>: the falsy values (undefined, NaN, 0, the empty string) give 0,
  every other value is kept.
\<close>

fun orZero :: "duration_field \<Rightarrow> duration_field" where
  "orZero Absent = Number (Num 0)"
| "orZero (Number n) = (if n = NaN then Number (Num 0) else Number n)"
| "orZero (Text s n) = (if s = [] then Number (Num 0) else Text s n)"

text \<open>The number that a comparison operator reads from the field; undefined reads NaN.\<close>

fun toNumber :: "duration_field \<Rightarrow> number" where
  "toNumber Absent = NaN"
| "toNumber (Number n) = n"
| "toNumber (Text s n) = n"

text \<open>
  \<^verbatim>\<open>duration.toFixed(2)\<close>: a method of numbers only.  On a string the property is
  undefined and the call throws a TypeError (as does any property access on undefined).
\<close>

fun toFixed :: "duration_field \<Rightarrow> js_error + string" where
  "toFixed (Number n) = Inr (toFixedNumber n)"
| "toFixed (Text s n) = Inl TypeError"
| "toFixed Absent = Inl TypeError"

text \<open>Sequencing of steps that may throw: the first error ends the computation.\<close>

fun andThen :: "js_error + 'a \<Rightarrow> ('a \<Rightarrow> js_error + 'b) \<Rightarrow> js_error + 'b" where
  "andThen (Inl e) f = Inl e"
| "andThen (Inr x) f = f x"

text \<open>\<^verbatim>\<open>Array.prototype.map\<close> with a callback that may throw: the first error ends the map.\<close>

fun mapThrowing :: "('a \<Rightarrow> js_error + 'b) \<Rightarrow> 'a list \<Rightarrow> js_error + 'b list" where
  "mapThrowing f [] = Inr []"
| "mapThrowing f (x # xs) = andThen (f x) (\<lambda>y. andThen (mapThrowing f xs) (\<lambda>ys. Inr (y # ys)))"

text \<open>Truthiness of an optional string: undefined and the empty string are falsy.\<close>

fun truthy :: "string option \<Rightarrow> bool" where
  "truthy None = False"
| "truthy (Some s) = (s \<noteq> [])"

text \<open>\<^verbatim>\<open>x || ''\<close> for an optional string.\<close>

fun orEmpty :: "string option \<Rightarrow> string" where
  "orEmpty None = []"
| "orEmpty (Some s) = s"

section \<open>Data model\<close>

record comment =
  c_content :: "string option"
  c_context :: "string option"

record recent_comments =
  totalCount :: nat
  comments :: "comment list"

record affected_entity =
  entityId_id :: string
  entityId_type :: string
  entity_name :: string

text \<open>
  One element of \<^verbatim>\<open>evidenceDetails.details\<close>: its \<^verbatim>\<open>data?.properties\<close> (absent, or a list),
  each property reduced to its \<^verbatim>\<open>value\<close> (absent, or a string).
\<close>

type_synonym evidence_detail = "string option list option"

record problem =
  problemId :: string
  displayId :: string
  title :: string
  status :: string
  severityLevel :: "string option"
  startTime :: string
  duration :: duration_field
  affectedEntities :: "affected_entity list"
  managementZones :: "string list"
  recentComments :: "recent_comments option"
  evidenceDetails :: "evidence_detail list option"
  Autoremediado :: "string option"
  FuncionoAutoRemediacion :: "string option"

datatype FPClassification = FALSE_POSITIVE | TRUE_POSITIVE | UNCERTAIN

datatype FPReason =
    VERY_SHORT_DURATION | SHORT_DURATION | AUTO_REMEDIATED | AUTO_REMEDIATION_SUCCESS
  | NO_COMMENTS | QUICK_MANUAL_CLOSE | LOW_SEVERITY | RESOURCE_CONTENTION
  | RECURRING_PATTERN | SPIKE_PATTERN

fun FP_REASON_LABELS :: "FPReason \<Rightarrow> string" where
  "FP_REASON_LABELS VERY_SHORT_DURATION = ''Duraci'' @ [CHR 0xF3] @ ''n muy corta (<5 min)''"
| "FP_REASON_LABELS SHORT_DURATION = ''Duraci'' @ [CHR 0xF3] @ ''n corta (5-15 min)''"
| "FP_REASON_LABELS AUTO_REMEDIATED = ''Auto-remediado''"
| "FP_REASON_LABELS AUTO_REMEDIATION_SUCCESS = ''Auto-remediaci'' @ [CHR 0xF3] @ ''n exitosa''"
| "FP_REASON_LABELS NO_COMMENTS = ''Sin comentarios/investigaci'' @ [CHR 0xF3] @ ''n''"
| "FP_REASON_LABELS QUICK_MANUAL_CLOSE = ''Cierre manual r'' @ [CHR 0xE1] @ ''pido''"
| "FP_REASON_LABELS LOW_SEVERITY = ''Severidad baja''"
| "FP_REASON_LABELS RESOURCE_CONTENTION = ''Contenci'' @ [CHR 0xF3] @ ''n de recursos''"
| "FP_REASON_LABELS RECURRING_PATTERN = ''Patr'' @ [CHR 0xF3] @ ''n recurrente''"
| "FP_REASON_LABELS SPIKE_PATTERN = ''Spike transitorio''"

text \<open>
  The thresholds are numbers; nothing in the code keeps NaN out of them.  (A stored value
  of another type acts in every use below, a comparison, a subtraction or a division
  with a number, through the number it reads as.)
\<close>

record FPThresholds =
  veryShortDurationMinutes :: number
  shortDurationMinutes :: number
  mediumDurationMinutes :: number
  highRecurrenceCount :: number
  recurrenceWindowDays :: number
  fpScoreThreshold :: number
  uncertainThreshold :: number

definition DEFAULT_FP_THRESHOLDS :: FPThresholds where
  "DEFAULT_FP_THRESHOLDS =
     \<lparr> veryShortDurationMinutes = Num 5, shortDurationMinutes = Num 15,
       mediumDurationMinutes = Num 60, highRecurrenceCount = Num 5,
       recurrenceWindowDays = Num 30,
       fpScoreThreshold = Num (6 / 10), uncertainThreshold = Num (3 / 10) \<rparr>"

record FPReasonDetail =
  reason :: FPReason
  label :: string
  weight :: rat
  details :: string

text \<open>
  The score is a sum of the constant weights, clamped: always a finite number.  The
  confidence is computed from the thresholds and is NaN when one of them is.
\<close>

record FPScoreResult =
  score :: rat
  classification :: FPClassification
  reasons :: "FPReasonDetail list"
  confidence :: number

definition mkReason :: "FPReason \<Rightarrow> rat \<Rightarrow> string \<Rightarrow> FPReasonDetail" where
  "mkReason r w d = \<lparr> reason = r, label = FP_REASON_LABELS r, weight = w, details = d \<rparr>"

section \<open>Scoring utilities (utils/fp-scoring.utils)\<close>

definition LOW_SEVERITY_LEVELS :: "string list" where
  "LOW_SEVERITY_LEVELS = [''RESOURCE_CONTENTION'', ''PERFORMANCE'']"

definition AUTO_REMEDIATION_VALUES :: "string list" where
  "AUTO_REMEDIATION_VALUES = [''si'', [CHR ''s'', CHR 0xED], ''yes'', ''true'', ''1'']"

text \<open>The running pair \<^verbatim>\<open>(score, reasons)\<close> that the numbered blocks of the source update.\<close>

type_synonym acc = "rat \<times> FPReasonDetail list"

text \<open>The detail text of a duration reason, around the digits that \<^verbatim>\<open>toFixed(2)\<close> gives.\<close>

definition durationDetail :: "string \<Rightarrow> string" where
  "durationDetail digits = ''Duraci'' @ [CHR 0xF3] @ ''n: '' @ digits @ '' min''"

text \<open>
  Block 1, duration analysis, on the local \<^verbatim>\<open>duration\<close> (the field after \<^verbatim>\<open>|| 0\<close>).  Building
  the reason calls \<^verbatim>\<open>duration.toFixed(2)\<close>, which throws when the duration is a string.
\<close>

definition durationAnalysis :: "FPThresholds \<Rightarrow> duration_field \<Rightarrow> acc \<Rightarrow> js_error + acc" where
  "durationAnalysis thresholds d a =
     (if jsLt (toNumber d) (veryShortDurationMinutes thresholds)
      then andThen (toFixed d)
             (\<lambda>digits. Inr (fst a + 35 / 100,
                             snd a @ [mkReason VERY_SHORT_DURATION (35 / 100) (durationDetail digits)]))
      else if jsLt (toNumber d) (shortDurationMinutes thresholds)
      then andThen (toFixed d)
             (\<lambda>digits. Inr (fst a + 20 / 100,
                             snd a @ [mkReason SHORT_DURATION (20 / 100) (durationDetail digits)]))
      else Inr a)"

text \<open>Block 2, given the pair \<^verbatim>\<open>{isAutoRemediated, wasSuccessful}\<close> of the detection.\<close>

definition autoRemediationAnalysis :: "bool \<times> bool \<Rightarrow> acc \<Rightarrow> acc" where
  "autoRemediationAnalysis st a =
     (if fst st
      then (if snd st
            then (fst a + 25 / 100,
                  snd a @ [mkReason AUTO_REMEDIATION_SUCCESS (25 / 100)
                             (''Auto-remediaci'' @ [CHR 0xF3] @ ''n exitosa detectada'')])
            else (fst a + 15 / 100,
                  snd a @ [mkReason AUTO_REMEDIATED (15 / 100)
                             (''Auto-remediaci'' @ [CHR 0xF3] @ ''n intentada'')]))
      else a)"

text \<open>\<^verbatim>\<open>problem.recentComments?.totalCount || 0\<close>.\<close>

definition commentCountOf :: "problem \<Rightarrow> nat" where
  "commentCountOf p = (case recentComments p of None \<Rightarrow> 0 | Some rc \<Rightarrow> totalCount rc)"

text \<open>\<^verbatim>\<open>problem.recentComments?.comments || []\<close>.\<close>

definition commentsOf :: "problem \<Rightarrow> comment list" where
  "commentsOf p = (case recentComments p of None \<Rightarrow> [] | Some rc \<Rightarrow> comments rc)"

text \<open>Block 3, no comments.\<close>

definition noCommentsAnalysis :: "nat \<Rightarrow> acc \<Rightarrow> acc" where
  "noCommentsAnalysis commentCount a =
     (if commentCount = 0
      then (fst a + 5 / 100,
            snd a @ [mkReason NO_COMMENTS (5 / 100)
                       (''Sin comentarios de investigaci'' @ [CHR 0xF3] @ ''n'')])
      else a)"

text \<open>
  Block 4, given the outcome of the manual-close test; its reason prints the duration too.
\<close>

definition quickManualCloseAnalysis :: "bool \<Rightarrow> duration_field \<Rightarrow> acc \<Rightarrow> js_error + acc" where
  "quickManualCloseAnalysis hit d a =
     (if hit
      then andThen (toFixed d)
             (\<lambda>digits. Inr (fst a + 15 / 100,
                             snd a @ [mkReason QUICK_MANUAL_CLOSE (15 / 100)
                                        (''Cerrado manualmente en '' @ digits @ '' min'')]))
      else Inr a)"

text \<open>Block 5, low severity.  An absent severity prints as \<^verbatim>\<open>undefined\<close>, and is in no list.\<close>

definition lowSeverityAnalysis :: "string option \<Rightarrow> acc \<Rightarrow> acc" where
  "lowSeverityAnalysis sev a =
     (case sev of
        None \<Rightarrow> a
      | Some s \<Rightarrow>
          if arrayIncludes LOW_SEVERITY_LEVELS s
          then (fst a + 10 / 100, snd a @ [mkReason LOW_SEVERITY (10 / 100) (''Severidad: '' @ s)])
          else a)"

definition classifyByScore :: "rat \<Rightarrow> FPThresholds \<Rightarrow> FPClassification" where
  "classifyByScore s thresholds =
     (if jsGe (Num s) (fpScoreThreshold thresholds) then FALSE_POSITIVE
      else if jsGe (Num s) (uncertainThreshold thresholds) then UNCERTAIN
      else TRUE_POSITIVE)"

definition calculateConfidence :: "rat \<Rightarrow> nat \<Rightarrow> FPThresholds \<Rightarrow> number" where
  "calculateConfidence s reasonCount thresholds =
     (let distanceFromThreshold =
            jsMin (jsAbs (jsSub (Num s) (fpScoreThreshold thresholds)))
                  (jsAbs (jsSub (Num s) (uncertainThreshold thresholds)));
          c = jsMin (jsAdd (Num (1 / 2)) distanceFromThreshold) (Num (8 / 10));
          c = jsAdd c (Num (min (of_nat reasonCount * (5 / 100)) (2 / 10)))
      in jsMin (Num 1) c)"

text \<open>The comment scan of \<^verbatim>\<open>detectAutoRemediation\<close>: one pass, two flags.\<close>

definition combinedText :: "comment \<Rightarrow> string" where
  "combinedText c =
     toLowerCase (orEmpty (c_content c)) @ '' '' @ toLowerCase (orEmpty (c_context c))"

fun scanComments :: "string list \<Rightarrow> string list \<Rightarrow> comment list \<Rightarrow> bool \<times> bool \<Rightarrow> bool \<times> bool" where
  "scanComments kws oks [] st = st"
| "scanComments kws oks (c # cs) st =
     (let combined = combinedText c
      in if list_ex (str_includes combined) kws
         then scanComments kws oks cs
                (True, if list_ex (str_includes combined) oks then True else snd st)
         else scanComments kws oks cs st)"

text \<open>The closing rule: closed and auto-remediated counts as successful.\<close>

definition assumeSuccessIfClosed :: "problem \<Rightarrow> bool \<times> bool \<Rightarrow> bool \<times> bool" where
  "assumeSuccessIfClosed p st =
     (if fst st \<and> status p = ''CLOSED'' \<and> \<not> snd st then (fst st, True) else st)"

definition detectAutoRemediation :: "problem \<Rightarrow> bool \<times> bool" where
  "detectAutoRemediation p =
     (case Autoremediado p of
        Some a \<Rightarrow>
          (arrayIncludes AUTO_REMEDIATION_VALUES (toLowerCase a),
           arrayIncludes AUTO_REMEDIATION_VALUES (toLowerCase (orEmpty (FuncionoAutoRemediacion p))))
      | None \<Rightarrow>
          assumeSuccessIfClosed p
            (scanComments
               [''autoremediado'', ''auto-remediado'', ''github actions'',
                ''self-healing'', ''auto-fix'', ''automated fix'']
               [''exitosa'', ''successful'', ''completed'', ''fixed'']
               (commentsOf p) (False, False)))"

text \<open>The manual-close test of block 4 in the utilities: only comment contents are read.\<close>

definition hasManualCloseKeyword :: "comment list \<Rightarrow> bool" where
  "hasManualCloseKeyword cs =
     list_ex (\<lambda>c. list_ex (str_includes (toLowerCase (orEmpty (c_content c))))
                    [''false positive'', ''falso positivo'', ''not an issue'', ''cerrado manualmente''])
       cs"

definition finish :: "FPThresholds \<Rightarrow> acc \<Rightarrow> FPScoreResult" where
  "finish thresholds a =
     (let s = min 1 (max 0 (fst a))
      in \<lparr> score = s,
           classification = classifyByScore s thresholds,
           reasons = snd a,
           confidence = calculateConfidence s (length (snd a)) thresholds \<rparr>)"

text \<open>The engine returns its result, or the error that one of the blocks has thrown.\<close>

definition calculateFPScore :: "problem \<Rightarrow> FPThresholds \<Rightarrow> js_error + FPScoreResult" where
  "calculateFPScore p thresholds =
     (let d = orZero (duration p);
          commentCount = commentCountOf p
      in andThen (durationAnalysis thresholds d (0, []))
           (\<lambda>a. andThen
                  (quickManualCloseAnalysis
                     (jsLt (toNumber d) (Num 10) \<and> commentCount > 0 \<and>
                      hasManualCloseKeyword (commentsOf p))
                     d
                     (noCommentsAnalysis commentCount
                        (autoRemediationAnalysis (detectAutoRemediation p) a)))
                  (\<lambda>a. Inr (finish thresholds (lowSeverityAnalysis (severityLevel p) a)))))"

section \<open>The service (services/false-positive.service)\<close>

text \<open>
  The service keeps its thresholds in a field; every method below takes that field's
  current value as an argument.
\<close>

definition AUTO_REMEDIATION_KEYWORDS :: "string list" where
  "AUTO_REMEDIATION_KEYWORDS =
     [''autoremediado'', ''auto-remediado'', ''autoremediation'', ''self-remediation'',
      ''github actions'', ''remediaci'' @ [CHR 0xF3] @ ''n autom'' @ [CHR 0xE1] @ ''tica'',
      ''automatic remediation'', ''self healing'', ''auto healing'', ''automated fix'',
      ''auto-fix'', ''workflow completed'', ''remediation successful'']"

definition AUTO_REMEDIATION_SUCCESS_KEYWORDS :: "string list" where
  "AUTO_REMEDIATION_SUCCESS_KEYWORDS =
     [''exitosa'', ''successful'', ''completed successfully'', ''fixed'',
      ''resolved automatically'', ''auto-resolved'', ''funcion'' @ [CHR 0xF3]]"

definition MANUAL_CLOSE_KEYWORDS :: "string list" where
  "MANUAL_CLOSE_KEYWORDS =
     [''manually closed'', ''cerrado manualmente'', ''closed by user'',
      ''cerrado por usuario'', ''manual intervention'', ''false positive'',
      ''falso positivo'', ''not an issue'', ''expected behavior'']"

definition service_detectAutoRemediation :: "problem \<Rightarrow> bool \<times> bool" where
  "service_detectAutoRemediation p =
     (if truthy (Autoremediado p)
      then (arrayIncludes AUTO_REMEDIATION_VALUES (toLowerCase (orEmpty (Autoremediado p))),
            arrayIncludes AUTO_REMEDIATION_VALUES
              (toLowerCase (orEmpty (FuncionoAutoRemediacion p))))
      else assumeSuccessIfClosed p
             (scanComments AUTO_REMEDIATION_KEYWORDS AUTO_REMEDIATION_SUCCESS_KEYWORDS
                (commentsOf p) (False, False)))"

text \<open>The property values of all evidence details, in order.\<close>

definition evidenceValues :: "problem \<Rightarrow> string option list" where
  "evidenceValues p =
     concat (map (\<lambda>d. case d of None \<Rightarrow> [] | Some props \<Rightarrow> props)
               (case evidenceDetails p of None \<Rightarrow> [] | Some ds \<Rightarrow> ds))"

text \<open>
  The manual-close test of the service.  Its first line compares the field itself
  (\<^verbatim>\<open>problem.duration >= 10\<close>), not the local \<^verbatim>\<open>duration\<close>.
\<close>

definition wasQuickManualClose :: "problem \<Rightarrow> bool" where
  "wasQuickManualClose p =
     (if jsGe (toNumber (duration p)) (Num 10) then False
      else if list_ex (\<lambda>c. list_ex (str_includes (combinedText c)) MANUAL_CLOSE_KEYWORDS)
                (commentsOf p)
      then True
      else list_ex (\<lambda>v. list_ex (str_includes (toLowerCase (orEmpty v))) MANUAL_CLOSE_KEYWORDS)
             (evidenceValues p))"

definition service_calculateFPScore :: "FPThresholds \<Rightarrow> problem \<Rightarrow> js_error + FPScoreResult" where
  "service_calculateFPScore thresholds p =
     (let d = orZero (duration p)
      in andThen (durationAnalysis thresholds d (0, []))
           (\<lambda>a. andThen
                  (quickManualCloseAnalysis (wasQuickManualClose p) d
                     (noCommentsAnalysis (commentCountOf p)
                        (autoRemediationAnalysis (service_detectAutoRemediation p) a)))
                  (\<lambda>a. Inr (finish thresholds (lowSeverityAnalysis (severityLevel p) a)))))"

text \<open>
  \<^verbatim>\<open>analyzeProblem\<close> returns the problem spread together with its \<^verbatim>\<open>fpAnalysis\<close>;
  here that object is the pair of the two.
\<close>

type_synonym ProblemWithFPAnalysis = "problem \<times> FPScoreResult"

definition analyzeProblem :: "FPThresholds \<Rightarrow> problem \<Rightarrow> js_error + ProblemWithFPAnalysis" where
  "analyzeProblem thresholds p =
     andThen (service_calculateFPScore thresholds p) (\<lambda>fpAnalysis. Inr (p, fpAnalysis))"

definition analyzeProblems :: "FPThresholds \<Rightarrow> problem list \<Rightarrow> js_error + ProblemWithFPAnalysis list" where
  "analyzeProblems thresholds ps = mapThrowing (analyzeProblem thresholds) ps"

subsection \<open>Threshold updates\<close>

text \<open>\<^verbatim>\<open>Partial<FPThresholds>\<close>: every field may be missing.\<close>

record PartialFPThresholds =
  new_veryShortDurationMinutes :: "number option"
  new_shortDurationMinutes :: "number option"
  new_mediumDurationMinutes :: "number option"
  new_highRecurrenceCount :: "number option"
  new_recurrenceWindowDays :: "number option"
  new_fpScoreThreshold :: "number option"
  new_uncertainThreshold :: "number option"

text \<open>One field of the spread \<^verbatim>\<open>{ ...this.thresholds, ...thresholds }\<close>: a given value wins.\<close>

fun override :: "number \<Rightarrow> number option \<Rightarrow> number" where
  "override old None = old"
| "override old (Some v) = v"

definition setThresholds :: "FPThresholds \<Rightarrow> PartialFPThresholds \<Rightarrow> FPThresholds" where
  "setThresholds cur new =
     \<lparr> veryShortDurationMinutes =
         override (veryShortDurationMinutes cur) (new_veryShortDurationMinutes new),
       shortDurationMinutes = override (shortDurationMinutes cur) (new_shortDurationMinutes new),
       mediumDurationMinutes = override (mediumDurationMinutes cur) (new_mediumDurationMinutes new),
       highRecurrenceCount = override (highRecurrenceCount cur) (new_highRecurrenceCount new),
       recurrenceWindowDays = override (recurrenceWindowDays cur) (new_recurrenceWindowDays new),
       fpScoreThreshold = override (fpScoreThreshold cur) (new_fpScoreThreshold new),
       uncertainThreshold = override (uncertainThreshold cur) (new_uncertainThreshold new) \<rparr>"

text \<open>
  The controller's answer to \<^verbatim>\<open>PUT .../thresholds\<close>: the HTTP status, the \<^verbatim>\<open>success\<close> flag,
  the message and, on success, the thresholds read back.  The function returns the answer
  and the thresholds the service holds afterwards.
\<close>

record response =
  http_status :: nat
  success :: bool
  message :: string
  thresholds_sent :: "FPThresholds option"

definition updateThresholds :: "FPThresholds \<Rightarrow> PartialFPThresholds \<Rightarrow> response \<times> FPThresholds" where
  "updateThresholds stored newThresholds =
     (let accepted =
            (let stored' = setThresholds stored newThresholds
             in (\<lparr> http_status = 200, success = True,
                    message = ''Thresholds updated successfully'',
                    thresholds_sent = Some stored' \<rparr>, stored'))
      in case new_fpScoreThreshold newThresholds of
           None \<Rightarrow> accepted
         | Some v \<Rightarrow>
             if jsLt v (Num 0) \<or> jsGt v (Num 1)
             then (\<lparr> http_status = 400, success = False,
                      message = ''fpScoreThreshold must be between 0 and 1'',
                      thresholds_sent = None \<rparr>, stored)
             else accepted)"

text \<open>
  The first step of \<^verbatim>\<open>runAnalysis\<close>: thresholds that come with the request are merged into
  the stored ones by \<^verbatim>\<open>setThresholds\<close>.
\<close>

definition runAnalysis_thresholds :: "FPThresholds \<Rightarrow> PartialFPThresholds option \<Rightarrow> FPThresholds" where
  "runAnalysis_thresholds stored requested =
     (case requested of None \<Rightarrow> stored | Some n \<Rightarrow> setThresholds stored n)"

subsection \<open>The store's query stages\<close>

text \<open>
  \<^verbatim>\<open>$match\<close> on the start time (string comparison against the bounds that are given) and on
  the management-zone names (\<^verbatim>\<open>$in\<close>: one of the problem's zones is among the requested ones).
\<close>

definition matchStartTime :: "string option \<Rightarrow> string option \<Rightarrow> problem \<Rightarrow> bool" where
  "matchStartTime dateFrom dateTo p =
     ((case dateFrom of None \<Rightarrow> True | Some f \<Rightarrow> f \<le> startTime p) \<and>
      (case dateTo of None \<Rightarrow> True | Some t \<Rightarrow> startTime p \<le> t))"

text \<open>A string parameter that is missing or empty is falsy and adds no bound.\<close>

fun given :: "string option \<Rightarrow> string option" where
  "given None = None"
| "given (Some s) = (if s = [] then None else Some s)"

definition matchZones :: "string list option \<Rightarrow> problem \<Rightarrow> bool" where
  "matchZones zones p =
     (case zones of
        None \<Rightarrow> True
      | Some zs \<Rightarrow> if zs = [] then True else list_ex (\<lambda>z. z \<in> set zs) (managementZones p))"

definition matchStage :: "string option \<Rightarrow> string option \<Rightarrow> string list option \<Rightarrow> problem list \<Rightarrow> problem list" where
  "matchStage dateFrom dateTo zones coll =
     filter (\<lambda>p. matchStartTime (given dateFrom) (given dateTo) p \<and> matchZones zones p) coll"

subsection \<open>Summary over analysed problems (calculateSummary)\<close>

text \<open>
  The fields of the summary that both summary paths fill from the scores: totals,
  classification counts, rates, the average score and the duration buckets.  (The
  other distributions, the daily trend and the top lists are left out.)
\<close>

record FPAnalyticsSummary =
  totalProblems :: nat
  analyzedProblems :: nat
  falsePositives :: nat
  truePositives :: nat
  uncertain :: nat
  falsePositiveRate :: rat
  autoRemediationRate :: rat
  avgFPScore :: rat
  byClassification :: "FPClassification \<Rightarrow> nat"
  byDuration :: "string \<rightharpoonup> nat"

text \<open>The counters the loop of \<^verbatim>\<open>calculateSummary\<close> updates.\<close>

record counters =
  cnt_byClassification :: "FPClassification \<Rightarrow> nat"
  cnt_byDuration :: "string \<rightharpoonup> nat"
  cnt_totalFPScore :: rat
  cnt_autoRemediatedCount :: nat

text \<open>\<^verbatim>\<open>m[k]++\<close> on a counter that has been initialised.\<close>

definition increment :: "(string \<rightharpoonup> nat) \<Rightarrow> string \<Rightarrow> (string \<rightharpoonup> nat)" where
  "increment m k = (case m k of None \<Rightarrow> m | Some c \<Rightarrow> m(k \<mapsto> c + 1))"

text \<open>The bucket of the local \<^verbatim>\<open>duration\<close> (the field after \<^verbatim>\<open>|| 0\<close>), by the number it reads as.\<close>

definition durationBucket :: "number \<Rightarrow> string" where
  "durationBucket d =
     (if jsLt d (Num 5) then ''<5min''
      else if jsLt d (Num 15) then ''5-15min''
      else if jsLt d (Num 60) then ''15-60min''
      else if jsLt d (Num 240) then ''1-4h''
      else ''>4h'')"

definition zeroBuckets :: "string \<rightharpoonup> nat" where
  "zeroBuckets =
     [''<5min'' \<mapsto> 0, ''5-15min'' \<mapsto> 0, ''15-60min'' \<mapsto> 0, ''1-4h'' \<mapsto> 0, ''>4h'' \<mapsto> 0]"

definition initialCounters :: counters where
  "initialCounters =
     \<lparr> cnt_byClassification = (\<lambda>c. 0), cnt_byDuration = zeroBuckets,
       cnt_totalFPScore = 0, cnt_autoRemediatedCount = 0 \<rparr>"

definition summaryStep :: "counters \<Rightarrow> ProblemWithFPAnalysis \<Rightarrow> counters" where
  "summaryStep st pa =
     (let analysis = snd pa;
          c = classification analysis
      in \<lparr> cnt_byClassification =
             (cnt_byClassification st)(c := cnt_byClassification st c + 1),
           cnt_byDuration = increment (cnt_byDuration st)
               (durationBucket (toNumber (orZero (duration (fst pa))))),
           cnt_totalFPScore = cnt_totalFPScore st + score analysis,
           cnt_autoRemediatedCount =
             (if list_ex (\<lambda>r. reason r = AUTO_REMEDIATED \<or> reason r = AUTO_REMEDIATION_SUCCESS)
                   (reasons analysis)
              then cnt_autoRemediatedCount st + 1 else cnt_autoRemediatedCount st) \<rparr>)"

definition getEmptySummary :: FPAnalyticsSummary where
  "getEmptySummary =
     \<lparr> totalProblems = 0, analyzedProblems = 0, falsePositives = 0, truePositives = 0,
       uncertain = 0, falsePositiveRate = 0, autoRemediationRate = 0, avgFPScore = 0,
       byClassification = (\<lambda>c. 0), byDuration = Map.empty \<rparr>"

definition calculateSummary :: "ProblemWithFPAnalysis list \<Rightarrow> FPAnalyticsSummary" where
  "calculateSummary problems =
     (let count = length problems
      in if count = 0 then getEmptySummary
         else
           (let st = foldl summaryStep initialCounters problems
            in \<lparr> totalProblems = count, analyzedProblems = count,
                 falsePositives = cnt_byClassification st FALSE_POSITIVE,
                 truePositives = cnt_byClassification st TRUE_POSITIVE,
                 uncertain = cnt_byClassification st UNCERTAIN,
                 falsePositiveRate = of_nat (cnt_byClassification st FALSE_POSITIVE) / of_nat count,
                 autoRemediationRate = of_nat (cnt_autoRemediatedCount st) / of_nat count,
                 avgFPScore = cnt_totalFPScore st / of_nat count,
                 byClassification = cnt_byClassification st,
                 byDuration = cnt_byDuration st \<rparr>))"

text \<open>
  The per-record summary of a stored collection under the filters of a request; an error
  thrown while a record is scored ends it.
\<close>

definition summaryPerRecord ::
  "FPThresholds \<Rightarrow> string option \<Rightarrow> string option \<Rightarrow> string list option \<Rightarrow> problem list
     \<Rightarrow> js_error + FPAnalyticsSummary" where
  "summaryPerRecord thresholds dateFrom dateTo zones coll =
     andThen (analyzeProblems thresholds (matchStage dateFrom dateTo zones coll))
       (\<lambda>analyzed. Inr (calculateSummary analyzed))"

subsection \<open>Summary by aggregation in the store (getSummaryFast)\<close>

text \<open>
  \<^verbatim>\<open>{ $lt: [{ $ifNull: ['$duration', 0] }, k] }\<close>: a missing duration is 0; in the store's
  comparison order NaN is below every number, and every string is above every number.
\<close>

fun storeLt :: "duration_field \<Rightarrow> rat \<Rightarrow> bool" where
  "storeLt Absent k = (0 < k)"
| "storeLt (Number NaN) k = True"
| "storeLt (Number NegInfinity) k = True"
| "storeLt (Number Infinity) k = False"
| "storeLt (Number (Num r)) k = (r < k)"
| "storeLt (Text s n) k = False"

text \<open>\<^verbatim>\<open>$toLower\<close> of the store changes the ASCII letters only.\<close>

definition storeToLowerChar :: "char \<Rightarrow> char" where
  "storeToLowerChar c =
     (let n = (of_char c :: nat) in if 65 \<le> n \<and> n \<le> 90 then char_of (n + 32) else c)"

definition storeToLower :: "string \<Rightarrow> string" where
  "storeToLower s = map storeToLowerChar s"

text \<open>\<^verbatim>\<open>{ $in: [{ $toLower: { $toString: { $ifNull: [field, ''] } } }, ['si', ...]] }\<close>.\<close>

definition storeTruthyToken :: "string option \<Rightarrow> bool" where
  "storeTruthyToken v =
     (storeToLower (orEmpty v) \<in> set [''si'', [CHR ''s'', CHR 0xED], ''yes'', ''true'', ''1''])"

text \<open>
  The three fields that \<^verbatim>\<open>$addFields\<close> attaches to a document.  (The score is the exact
  sum of its four terms here; the store adds them as doubles, in this order.)
\<close>

record added_fields =
  fpScore :: rat
  durationCategory :: string
  isAutoRemediated :: bool

definition addFields :: "problem \<Rightarrow> added_fields" where
  "addFields p =
     \<lparr> fpScore =
         (if storeLt (duration p) 5 then 35 / 100
          else if storeLt (duration p) 15 then 20 / 100
          else if storeLt (duration p) 60 then 10 / 100 else 0)
         + (if storeTruthyToken (Autoremediado p) \<and> storeTruthyToken (FuncionoAutoRemediacion p)
            then 25 / 100
            else if storeTruthyToken (Autoremediado p) then 10 / 100 else 0)
         + (case severityLevel p of
              None \<Rightarrow> 0
            | Some s \<Rightarrow> if s \<in> set [''RESOURCE_CONTENTION'', ''PERFORMANCE''] then 10 / 100 else 0)
         + (if commentCountOf p = 0 then 5 / 100 else 0),
       durationCategory =
         (if storeLt (duration p) 5 then ''<5min''
          else if storeLt (duration p) 15 then ''5-15min''
          else if storeLt (duration p) 60 then ''15-60min''
          else if storeLt (duration p) 240 then ''1-4h''
          else ''>4h''),
       isAutoRemediated = storeTruthyToken (Autoremediado p) \<rparr>"

text \<open>The accumulators of the \<^verbatim>\<open>$group\<close> stage.\<close>

record group_data =
  g_totalProblems :: nat
  g_falsePositives :: nat
  g_truePositives :: nat
  g_uncertain :: nat
  g_autoRemediated :: nat
  g_totalFPScore :: rat
  g_durationLt5 :: nat
  g_duration5to15 :: nat
  g_duration15to60 :: nat
  g_duration1to4h :: nat
  g_durationGt4h :: nat

definition cond01 :: "bool \<Rightarrow> nat" where
  "cond01 b = (if b then 1 else 0)"

definition zeroGroup :: group_data where
  "zeroGroup =
     \<lparr> g_totalProblems = 0, g_falsePositives = 0, g_truePositives = 0, g_uncertain = 0,
       g_autoRemediated = 0, g_totalFPScore = 0, g_durationLt5 = 0, g_duration5to15 = 0,
       g_duration15to60 = 0, g_duration1to4h = 0, g_durationGt4h = 0 \<rparr>"

definition groupStep :: "group_data \<Rightarrow> added_fields \<Rightarrow> group_data" where
  "groupStep g d =
     \<lparr> g_totalProblems = g_totalProblems g + 1,
       g_falsePositives = g_falsePositives g + cond01 (fpScore d \<ge> 6 / 10),
       g_truePositives = g_truePositives g + cond01 (fpScore d < 3 / 10),
       g_uncertain = g_uncertain g + cond01 (fpScore d \<ge> 3 / 10 \<and> fpScore d < 6 / 10),
       g_autoRemediated = g_autoRemediated g + cond01 (isAutoRemediated d),
       g_totalFPScore = g_totalFPScore g + fpScore d,
       g_durationLt5 = g_durationLt5 g + cond01 (durationCategory d = ''<5min''),
       g_duration5to15 = g_duration5to15 g + cond01 (durationCategory d = ''5-15min''),
       g_duration15to60 = g_duration15to60 g + cond01 (durationCategory d = ''15-60min''),
       g_duration1to4h = g_duration1to4h g + cond01 (durationCategory d = ''1-4h''),
       g_durationGt4h = g_durationGt4h g + cond01 (durationCategory d = ''>4h'') \<rparr>"

text \<open>
  The pipeline's only result document; with no matching document the \<^verbatim>\<open>$group\<close> stage
  emits nothing, and the method takes its all-zero default.
\<close>

definition aggregateMain :: "problem list \<Rightarrow> group_data" where
  "aggregateMain docs = foldl groupStep zeroGroup (map addFields docs)"

definition getSummaryFast ::
  "string option \<Rightarrow> string option \<Rightarrow> string list option \<Rightarrow> problem list \<Rightarrow> FPAnalyticsSummary" where
  "getSummaryFast dateFrom dateTo zones coll =
     (let dat = aggregateMain (matchStage dateFrom dateTo zones coll);
          n = g_totalProblems dat
      in \<lparr> totalProblems = n, analyzedProblems = n,
           falsePositives = g_falsePositives dat,
           truePositives = g_truePositives dat,
           uncertain = g_uncertain dat,
           falsePositiveRate = (if n > 0 then of_nat (g_falsePositives dat) / of_nat n else 0),
           autoRemediationRate = (if n > 0 then of_nat (g_autoRemediated dat) / of_nat n else 0),
           avgFPScore = (if n > 0 then g_totalFPScore dat / of_nat n else 0),
           byClassification =
             (\<lambda>c. case c of FALSE_POSITIVE \<Rightarrow> g_falsePositives dat
                   | TRUE_POSITIVE \<Rightarrow> g_truePositives dat
                   | UNCERTAIN \<Rightarrow> g_uncertain dat),
           byDuration =
             [''<5min'' \<mapsto> g_durationLt5 dat, ''5-15min'' \<mapsto> g_duration5to15 dat,
              ''15-60min'' \<mapsto> g_duration15to60 dat, ''1-4h'' \<mapsto> g_duration1to4h dat,
              ''>4h'' \<mapsto> g_durationGt4h dat] \<rparr>)"

subsection \<open>Entity recurrence (analyzeEntityRecurrence)\<close>
















section \<open>Properties stated by the specification\<close>

text \<open>The result of a computation that may throw, if there is one.\<close>

fun resultOf :: "js_error + 'a \<Rightarrow> 'a option" where
  "resultOf (Inr r) = Some r"
| "resultOf (Inl e) = None"


text \<open>
  A threshold configuration is valid when 0 \<le> uncertainThreshold \<le> fpScoreThreshold \<le> 1
  (as comparisons of numbers, so that neither of the two is NaN).
\<close>

definition validThresholds :: "FPThresholds \<Rightarrow> bool" where
  "validThresholds t =
     (jsLe (Num 0) (uncertainThreshold t) \<and> jsLe (uncertainThreshold t) (fpScoreThreshold t) \<and>
      jsLe (fpScoreThreshold t) (Num 1))"

text \<open>The classification of a result agrees with its score on all three classes.\<close>

definition classificationConsistent :: "FPThresholds \<Rightarrow> FPScoreResult \<Rightarrow> bool" where
  "classificationConsistent t r =
     ((classification r = FALSE_POSITIVE) = jsGe (Num (score r)) (fpScoreThreshold t) \<and>
      (classification r = UNCERTAIN)
        = (jsLe (uncertainThreshold t) (Num (score r)) \<and> jsLt (Num (score r)) (fpScoreThreshold t)) \<and>
      (classification r = TRUE_POSITIVE) = jsLt (Num (score r)) (uncertainThreshold t))"

text \<open>
  Blocks 1 and 4 when the local \<^verbatim>\<open>duration\<close> is a number: \<^verbatim>\<open>toFixed\<close> gives its digits and
  nothing is thrown.
\<close>

definition durationOnNumber :: "FPThresholds \<Rightarrow> number \<Rightarrow> acc \<Rightarrow> acc" where
  "durationOnNumber t n a =
     (if jsLt n (veryShortDurationMinutes t)
      then (fst a + 35 / 100,
            snd a @ [mkReason VERY_SHORT_DURATION (35 / 100) (durationDetail (toFixedNumber n))])
      else if jsLt n (shortDurationMinutes t)
      then (fst a + 20 / 100,
            snd a @ [mkReason SHORT_DURATION (20 / 100) (durationDetail (toFixedNumber n))])
      else a)"

definition quickCloseOnNumber :: "bool \<Rightarrow> number \<Rightarrow> acc \<Rightarrow> acc" where
  "quickCloseOnNumber hit n a =
     (if hit
      then (fst a + 15 / 100,
            snd a @ [mkReason QUICK_MANUAL_CLOSE (15 / 100)
                       (''Cerrado manualmente en '' @ toFixedNumber n @ '' min'')])
      else a)"

text \<open>
  What block 1 adds to the score for a duration of d minutes (a number never makes the
  block throw, so the second case does not arise).
\<close>

definition durationContribution :: "FPThresholds \<Rightarrow> rat \<Rightarrow> rat" where
  "durationContribution t d =
     (case durationAnalysis t (Number (Num d)) (0, []) of Inr a \<Rightarrow> fst a | Inl e \<Rightarrow> 0)"

text \<open>A result without the free-text detail of its reasons.\<close>

definition withoutDetails ::
  "FPScoreResult \<Rightarrow> rat \<times> FPClassification \<times> (FPReason \<times> string \<times> rat) list \<times> number" where
  "withoutDetails r =
     (score r, classification r, map (\<lambda>x. (reason x, label x, weight x)) (reasons r), confidence r)"

text \<open>The detail texts of the reasons of a result, in order.\<close>

definition detailTexts :: "FPScoreResult \<Rightarrow> string list" where
  "detailTexts r = map details (reasons r)"

text \<open>The score and the reasons accumulated so far, without the detail texts.\<close>

definition codes :: "acc \<Rightarrow> rat \<times> (FPReason \<times> string \<times> rat) list" where
  "codes a = (fst a, map (\<lambda>x. (reason x, label x, weight x)) (snd a))"










section \<open>Sample records\<close>

definition hostA :: affected_entity where
  "hostA = \<lparr> entityId_id = ''HOST-A'', entityId_type = ''HOST'', entity_name = ''web-01'' \<rparr>"

text \<open>Scenario A of the specification.\<close>

definition scenarioA :: problem where
  "scenarioA =
     \<lparr> problemId = ''-1001'', displayId = ''P-1001'', title = ''CPU saturation'',
       status = ''CLOSED'', severityLevel = Some ''RESOURCE_CONTENTION'',
       startTime = ''2024-05-01T10:00:00.000Z'', duration = Number (Num 3),
       affectedEntities = [hostA], managementZones = [''prod''],
       recentComments = Some \<lparr> totalCount = 0, comments = [] \<rparr>, evidenceDetails = None,
       Autoremediado = Some ''Si'', FuncionoAutoRemediacion = Some ''Si'' \<rparr>"

text \<open>The update without any field, \<^verbatim>\<open>{}\<close>.\<close>

definition noUpdate :: PartialFPThresholds where
  "noUpdate =
     \<lparr> new_veryShortDurationMinutes = None, new_shortDurationMinutes = None,
       new_mediumDurationMinutes = None, new_highRecurrenceCount = None,
       new_recurrenceWindowDays = None, new_fpScoreThreshold = None,
       new_uncertainThreshold = None \<rparr>"

text \<open>The update \<^verbatim>\<open>{ fpScoreThreshold: 1.5 }\<close>.\<close>

definition fpTooHigh :: PartialFPThresholds where
  "fpTooHigh = noUpdate\<lparr> new_fpScoreThreshold := Some (Num (15 / 10)) \<rparr>"

text \<open>The update \<^verbatim>\<open>{ uncertainThreshold: 0.9 }\<close>.\<close>

definition raiseUncertain :: PartialFPThresholds where
  "raiseUncertain = noUpdate\<lparr> new_uncertainThreshold := Some (Num (9 / 10)) \<rparr>"

text \<open>The default thresholds with NaN as \<^verbatim>\<open>fpScoreThreshold\<close>.\<close>

definition nanThreshold :: FPThresholds where
  "nanThreshold = DEFAULT_FP_THRESHOLDS\<lparr> fpScoreThreshold := NaN \<rparr>"

text \<open>Scenario A with a duration of minus five minutes.\<close>

definition negativeDuration :: problem where
  "negativeDuration = scenarioA\<lparr> duration := Number (Num (- 5)) \<rparr>"

text \<open>Scenario A without a duration field.\<close>

definition absentDuration :: problem where
  "absentDuration = scenarioA\<lparr> duration := Absent \<rparr>"

text \<open>Scenario A with the duration stored as the string \<^verbatim>\<open>"3"\<close>.\<close>

definition stringDuration :: problem where
  "stringDuration = scenarioA\<lparr> duration := Text ''3'' (Num 3) \<rparr>"




section \<open>Verified properties\<close>

lemma andThen_Inr_iff: "andThen m f = Inr y \<longleftrightarrow> (\<exists>x. m = Inr x \<and> f x = Inr y)"
  by (cases m) simp_all

lemma andThen_Inl_iff: "andThen m f = Inl e \<longleftrightarrow> (m = Inl e \<or> (\<exists>x. m = Inr x \<and> f x = Inl e))"
  by (cases m) simp_all

lemma score_finish: "score (finish t a) = min 1 (max 0 (fst a))"
  by (simp add: finish_def Let_def)

lemma classification_finish: "classification (finish t a) = classifyByScore (score (finish t a)) t"
  by (simp add: finish_def Let_def)

lemma confidence_finish:
  "confidence (finish t a) = calculateConfidence (score (finish t a)) (length (snd a)) t"
  by (simp add: finish_def Let_def)

lemma reasons_finish: "reasons (finish t a) = snd a"
  by (simp add: finish_def Let_def)

lemma calculateFPScore_finish: "calculateFPScore p t = Inr r \<Longrightarrow> \<exists>a. r = finish t a"
  by (simp add: calculateFPScore_def Let_def andThen_Inr_iff del: split_paired_Ex) blast

lemma service_calculateFPScore_finish: "service_calculateFPScore t p = Inr r \<Longrightarrow> \<exists>a. r = finish t a"
  by (simp add: service_calculateFPScore_def Let_def andThen_Inr_iff del: split_paired_Ex) blast

text \<open>Comparisons of two thresholds that are in order.\<close>

lemma jsLe_Num [simp]: "jsLe (Num x) (Num y) = (x \<le> y)"
  by (auto simp: jsLe_def)

lemma jsGe_Num [simp]: "jsGe (Num x) (Num y) = (y \<le> x)"
  by (auto simp: jsGe_def)

lemma jsGt_Num [simp]: "jsGt (Num x) (Num y) = (y < x)"
  by (simp add: jsGt_def)

lemma validThresholds_Num:
  "validThresholds t \<Longrightarrow>
   \<exists>u f. uncertainThreshold t = Num u \<and> fpScoreThreshold t = Num f \<and> 0 \<le> u \<and> u \<le> f \<and> f \<le> 1"
  by (cases "uncertainThreshold t"; cases "fpScoreThreshold t")
     (auto simp: validThresholds_def jsLe_def)

lemma classifyByScore_consistent:
  assumes "validThresholds t"
  shows "classificationConsistent t (finish t a)"
proof -
  from validThresholds_Num [OF assms] obtain u f
    where "uncertainThreshold t = Num u" "fpScoreThreshold t = Num f" "u \<le> f" by blast
  then show ?thesis
    by (auto simp: classificationConsistent_def classification_finish classifyByScore_def)
qed

text \<open>
  Claim C3.  For every problem and every valid threshold configuration, a result of the
  scoring engine (the utility function and the service method alike) is classified
  FALSE_POSITIVE exactly when its score reaches fpScoreThreshold, UNCERTAIN exactly when
  the score lies between uncertainThreshold (included) and fpScoreThreshold (excluded),
  and TRUE_POSITIVE exactly when the score is below uncertainThreshold.
\<close>

theorem classification_consistency:
  assumes "validThresholds t"
  shows "(\<forall>r. calculateFPScore p t = Inr r \<longrightarrow> classificationConsistent t r) \<and>
         (\<forall>r. service_calculateFPScore t p = Inr r \<longrightarrow> classificationConsistent t r)"
  using classifyByScore_consistent [OF assms] calculateFPScore_finish service_calculateFPScore_finish
  by blast

lemma resultOf_Some_iff: "resultOf m = Some r \<longleftrightarrow> m = Inr r"
  by (cases m) simp_all

theorem classification_consistency_witness:
  "validThresholds DEFAULT_FP_THRESHOLDS \<and>
   map_option (classificationConsistent DEFAULT_FP_THRESHOLDS)
     (resultOf (calculateFPScore scenarioA DEFAULT_FP_THRESHOLDS)) = Some True \<and>
   map_option classification (resultOf (calculateFPScore scenarioA DEFAULT_FP_THRESHOLDS))
     = Some FALSE_POSITIVE"
proof -
  have v: "validThresholds DEFAULT_FP_THRESHOLDS"
    by (simp add: validThresholds_def DEFAULT_FP_THRESHOLDS_def)
  have c: "map_option classification (resultOf (calculateFPScore scenarioA DEFAULT_FP_THRESHOLDS))
             = Some FALSE_POSITIVE"
    by code_simp
  then obtain r where r: "calculateFPScore scenarioA DEFAULT_FP_THRESHOLDS = Inr r"
    by (auto simp: resultOf_Some_iff)
  from classification_consistency [OF v, of scenarioA] r
  have "classificationConsistent DEFAULT_FP_THRESHOLDS r" by blast
  with v c r show ?thesis by simp
qed

lemma distance_cases:
  assumes "f \<noteq> NaN" and "u \<noteq> NaN"
  shows "jsMin (jsAbs (jsSub (Num s) f)) (jsAbs (jsSub (Num s) u)) = Infinity \<or>
         (\<exists>d. jsMin (jsAbs (jsSub (Num s) f)) (jsAbs (jsSub (Num s) u)) = Num d \<and> 0 \<le> d)"
  using assms by (cases f; cases u) (auto simp: jsMin_def)

lemma distance_NaN:
  assumes "f = NaN \<or> u = NaN"
  shows "jsMin (jsAbs (jsSub (Num s) f)) (jsAbs (jsSub (Num s) u)) = NaN"
  using assms by (cases f; cases u) (auto simp: jsMin_def)

lemma base_cases:
  assumes "gap = Infinity \<or> (\<exists>d. gap = Num d \<and> 0 \<le> d)"
  shows "\<exists>b. jsMin (jsAdd (Num (1 / 2)) gap) (Num (8 / 10)) = Num b \<and> 1 / 2 \<le> b \<and> b \<le> 8 / 10"
  using assms
proof
  assume "gap = Infinity"
  then have "jsMin (jsAdd (Num (1 / 2)) gap) (Num (8 / 10)) = Num (8 / 10)"
    by (simp add: jsMin_def)
  moreover have "(1 / 2 :: rat) \<le> 8 / 10 \<and> (8 / 10 :: rat) \<le> 8 / 10" by simp
  ultimately show ?thesis by blast
next
  assume "\<exists>d. gap = Num d \<and> 0 \<le> d"
  then obtain d where d: "gap = Num d" "0 \<le> d" by blast
  then have "jsMin (jsAdd (Num (1 / 2)) gap) (Num (8 / 10)) = Num (min (1 / 2 + d) (8 / 10))"
    by (auto simp: jsMin_def)
  moreover have "1 / 2 \<le> min (1 / 2 + d) (8 / 10) \<and> min (1 / 2 + d) (8 / 10) \<le> 8 / 10"
    using d(2) unfolding min_def by auto
  ultimately show ?thesis by blast
qed

lemma calculateConfidence_bounds:
  assumes "fpScoreThreshold t \<noteq> NaN" and "uncertainThreshold t \<noteq> NaN"
  shows "\<exists>c. calculateConfidence s n t = Num c \<and> 1 / 2 \<le> c \<and> c \<le> 1"
proof -
  define gap where
    "gap = jsMin (jsAbs (jsSub (Num s) (fpScoreThreshold t)))
                  (jsAbs (jsSub (Num s) (uncertainThreshold t)))"
  define boost where "boost = min (of_nat n * (5 / 100)) (2 / 10 :: rat)"
  from distance_cases [OF assms] have "gap = Infinity \<or> (\<exists>d. gap = Num d \<and> 0 \<le> d)"
    by (simp add: gap_def)
  from base_cases [OF this] obtain b
    where b: "jsMin (jsAdd (Num (1 / 2)) gap) (Num (8 / 10)) = Num b" "1 / 2 \<le> b" "b \<le> 8 / 10"
    by blast
  have n: "0 \<le> boost \<and> boost \<le> 2 / 10" unfolding boost_def min_def by auto
  have "calculateConfidence s n t = jsMin (Num 1) (Num (b + boost))"
    using b(1) by (simp add: calculateConfidence_def Let_def gap_def [symmetric] boost_def)
  also have "\<dots> = Num (min 1 (b + boost))"
    by (auto simp: jsMin_def)
  finally show ?thesis using b(2,3) n by auto
qed

lemma calculateConfidence_NaN:
  assumes "fpScoreThreshold t = NaN \<or> uncertainThreshold t = NaN"
  shows "calculateConfidence s n t = NaN"
  using distance_NaN [OF assms, of s]
  by (simp add: calculateConfidence_def Let_def jsMin_def)

text \<open>
  Claim C6, as amended.  For every problem and every threshold configuration, a result of
  the scoring engine has a score between 0 and 1.  Its confidence is a number between 0
  and 1 whenever neither fpScoreThreshold nor uncertainThreshold is NaN, and it is NaN
  when one of the two is.
\<close>

theorem score_and_confidence_ranges:
  assumes "calculateFPScore p t = Inr r \<or> service_calculateFPScore t p = Inr r"
  shows "0 \<le> score r \<and> score r \<le> 1 \<and>
         (fpScoreThreshold t \<noteq> NaN \<and> uncertainThreshold t \<noteq> NaN \<longrightarrow>
            (\<exists>c. confidence r = Num c \<and> 0 \<le> c \<and> c \<le> 1)) \<and>
         (fpScoreThreshold t = NaN \<or> uncertainThreshold t = NaN \<longrightarrow> confidence r = NaN)"
proof -
  from assms obtain a where a: "r = finish t a"
    using calculateFPScore_finish service_calculateFPScore_finish by blast
  have s: "0 \<le> score r \<and> score r \<le> 1" by (simp add: a score_finish)
  have c: "\<exists>c. confidence r = Num c \<and> 0 \<le> c \<and> c \<le> 1"
    if "fpScoreThreshold t \<noteq> NaN \<and> uncertainThreshold t \<noteq> NaN"
  proof -
    from that calculateConfidence_bounds [of t "score r" "length (snd a)"]
    obtain c where "calculateConfidence (score r) (length (snd a)) t = Num c" "1 / 2 \<le> c" "c \<le> 1"
      by blast
    then show ?thesis by (auto simp: a confidence_finish)
  qed
  have n: "confidence r = NaN" if "fpScoreThreshold t = NaN \<or> uncertainThreshold t = NaN"
    using calculateConfidence_NaN [OF that] by (simp add: a confidence_finish)
  from s c n show ?thesis by blast
qed

theorem score_and_confidence_ranges_witness:
  "map_option score (resultOf (calculateFPScore scenarioA DEFAULT_FP_THRESHOLDS)) = Some (3 / 4) \<and>
   map_option confidence (resultOf (calculateFPScore scenarioA DEFAULT_FP_THRESHOLDS))
     = Some (Num (17 / 20))"
proof -
  have e: "map_option score (resultOf (calculateFPScore scenarioA DEFAULT_FP_THRESHOLDS)) = Some (3 / 4) \<and>
   map_option confidence (resultOf (calculateFPScore scenarioA DEFAULT_FP_THRESHOLDS))
     = Some (Num (17 / 20))"
    by code_simp
  then obtain r where r: "calculateFPScore scenarioA DEFAULT_FP_THRESHOLDS = Inr r"
    by (auto simp: resultOf_Some_iff)
  from score_and_confidence_ranges [of scenarioA DEFAULT_FP_THRESHOLDS r] r
  have "0 \<le> score r" by blast
  with e show ?thesis by simp
qed

text \<open>
  Claim C6 as stated fails: with NaN as fpScoreThreshold the distance to the nearest
  threshold is NaN, and so is the confidence of scenario A.
\<close>

theorem nan_threshold_counterexample:
  "map_option confidence (resultOf (calculateFPScore scenarioA nanThreshold)) = Some NaN \<and>
   map_option confidence (resultOf (service_calculateFPScore nanThreshold scenarioA)) = Some NaN"
  by code_simp

text \<open>
  Claim C10.  For every problem and every threshold configuration whose fpScoreThreshold
  and uncertainThreshold are numbers (not NaN), the confidence of a result of the scoring
  engine is at least 0.5: the base term is at least 0.5 and the boost for the number of
  reasons is not negative.
\<close>

theorem confidence_at_least_half:
  assumes "fpScoreThreshold t \<noteq> NaN" and "uncertainThreshold t \<noteq> NaN"
    and "calculateFPScore p t = Inr r \<or> service_calculateFPScore t p = Inr r"
  shows "\<exists>c. confidence r = Num c \<and> 1 / 2 \<le> c"
proof -
  from assms(3) obtain a where a: "r = finish t a"
    using calculateFPScore_finish service_calculateFPScore_finish by blast
  from calculateConfidence_bounds [OF assms(1,2), of "score r" "length (snd a)"]
  show ?thesis by (auto simp: a confidence_finish)
qed

theorem confidence_at_least_half_witness:
  "fpScoreThreshold DEFAULT_FP_THRESHOLDS \<noteq> NaN \<and> uncertainThreshold DEFAULT_FP_THRESHOLDS \<noteq> NaN \<and>
   map_option confidence (resultOf (service_calculateFPScore DEFAULT_FP_THRESHOLDS scenarioA))
     = Some (Num (17 / 20)) \<and> (1 / 2 :: rat) \<le> 17 / 20"
proof -
  have h: "fpScoreThreshold DEFAULT_FP_THRESHOLDS \<noteq> NaN"
    "uncertainThreshold DEFAULT_FP_THRESHOLDS \<noteq> NaN"
    by (simp_all add: DEFAULT_FP_THRESHOLDS_def)
  have e: "map_option confidence (resultOf (service_calculateFPScore DEFAULT_FP_THRESHOLDS scenarioA))
             = Some (Num (17 / 20))"
    by code_simp
  then obtain r where r: "service_calculateFPScore DEFAULT_FP_THRESHOLDS scenarioA = Inr r"
    and c: "confidence r = Num (17 / 20)"
    by (auto simp: resultOf_Some_iff)
  from confidence_at_least_half [OF h, of scenarioA r] r c
  have "(1 / 2 :: rat) \<le> 17 / 20" by auto
  with h e show ?thesis by simp
qed


lemma durationAnalysis_Number:
  "durationAnalysis t (Number n) a = Inr (durationOnNumber t n a)"
  by (simp add: durationAnalysis_def durationOnNumber_def)

lemma quickManualCloseAnalysis_Number:
  "quickManualCloseAnalysis hit (Number n) a = Inr (quickCloseOnNumber hit n a)"
  by (simp add: quickManualCloseAnalysis_def quickCloseOnNumber_def)

lemma calculateFPScore_Number:
  assumes "orZero (duration p) = Number n"
  shows "calculateFPScore p t =
           Inr (finish t
                  (lowSeverityAnalysis (severityLevel p)
                     (quickCloseOnNumber
                        (jsLt n (Num 10) \<and> commentCountOf p > 0 \<and> hasManualCloseKeyword (commentsOf p))
                        n
                        (noCommentsAnalysis (commentCountOf p)
                           (autoRemediationAnalysis (detectAutoRemediation p)
                              (durationOnNumber t n (0, [])))))))"
  using assms
  by (simp add: calculateFPScore_def Let_def durationAnalysis_Number quickManualCloseAnalysis_Number)

lemma service_calculateFPScore_Number:
  assumes "orZero (duration p) = Number n"
  shows "service_calculateFPScore t p =
           Inr (finish t
                  (lowSeverityAnalysis (severityLevel p)
                     (quickCloseOnNumber (wasQuickManualClose p) n
                        (noCommentsAnalysis (commentCountOf p)
                           (autoRemediationAnalysis (service_detectAutoRemediation p)
                              (durationOnNumber t n (0, [])))))))"
  using assms
  by (simp add: service_calculateFPScore_def Let_def durationAnalysis_Number
        quickManualCloseAnalysis_Number)

lemma durationContribution_eq:
  "durationContribution t d =
     (if jsLt (Num d) (veryShortDurationMinutes t) then 35 / 100
      else if jsLt (Num d) (shortDurationMinutes t) then 20 / 100 else 0)"
  by (simp add: durationContribution_def durationAnalysis_Number durationOnNumber_def)

lemma fst_durationOnNumber:
  "fst (durationOnNumber t (Num d) a) = fst a + durationContribution t d"
  by (simp add: durationContribution_eq durationOnNumber_def)

lemma fst_autoRemediationAnalysis:
  "fst (autoRemediationAnalysis st a) =
     fst a + (if fst st then (if snd st then 25 / 100 else 15 / 100) else 0)"
  by (simp add: autoRemediationAnalysis_def)

lemma fst_noCommentsAnalysis:
  "fst (noCommentsAnalysis n a) = fst a + (if n = 0 then 5 / 100 else 0)"
  by (simp add: noCommentsAnalysis_def)

lemma fst_quickCloseOnNumber:
  "fst (quickCloseOnNumber hit d a) = fst a + (if hit then 15 / 100 else 0)"
  by (simp add: quickCloseOnNumber_def)

lemma fst_lowSeverityAnalysis:
  "fst (lowSeverityAnalysis sev a) =
     fst a + (case sev of None \<Rightarrow> 0
              | Some s \<Rightarrow> if arrayIncludes LOW_SEVERITY_LEVELS s then 10 / 100 else 0)"
  by (simp add: lowSeverityAnalysis_def split: option.splits)

lemmas fst_blocks =
  fst_durationOnNumber fst_autoRemediationAnalysis fst_noCommentsAnalysis
  fst_quickCloseOnNumber fst_lowSeverityAnalysis

lemma jsLt_Num_mono: "d1 \<le> d2 \<Longrightarrow> jsLt (Num d2) x \<Longrightarrow> jsLt (Num d1) x"
  by (cases x) simp_all

lemma durationContribution_mono:
  "d1 \<le> d2 \<Longrightarrow> durationContribution t d2 \<le> durationContribution t d1"
  using jsLt_Num_mono [of d1 d2 "veryShortDurationMinutes t"]
    jsLt_Num_mono [of d1 d2 "shortDurationMinutes t"]
  by (auto simp: durationContribution_eq)

lemma detectAutoRemediation_duration [simp]:
  "detectAutoRemediation (p\<lparr>duration := x\<rparr>) = detectAutoRemediation p"
  by (simp add: detectAutoRemediation_def commentsOf_def assumeSuccessIfClosed_def
        split: option.splits)

lemma service_detectAutoRemediation_duration [simp]:
  "service_detectAutoRemediation (p\<lparr>duration := x\<rparr>) = service_detectAutoRemediation p"
  by (simp add: service_detectAutoRemediation_def commentsOf_def assumeSuccessIfClosed_def)

lemma commentCountOf_duration [simp]: "commentCountOf (p\<lparr>duration := x\<rparr>) = commentCountOf p"
  by (simp add: commentCountOf_def)

lemma commentsOf_duration [simp]: "commentsOf (p\<lparr>duration := x\<rparr>) = commentsOf p"
  by (simp add: commentsOf_def)

lemma evidenceValues_duration [simp]: "evidenceValues (p\<lparr>duration := x\<rparr>) = evidenceValues p"
  by (simp add: evidenceValues_def)

lemma wasQuickManualClose_mono:
  "d1 \<le> d2 \<Longrightarrow> wasQuickManualClose (p\<lparr>duration := Number (Num d2)\<rparr>)
     \<Longrightarrow> wasQuickManualClose (p\<lparr>duration := Number (Num d1)\<rparr>)"
  by (auto simp: wasQuickManualClose_def split: if_splits)

lemma orZero_Num [simp]: "orZero (Number (Num d)) = Number (Num d)"
  by simp

lemma score_mono_utils:
  assumes "d1 \<le> d2"
  shows "\<exists>r1 r2. calculateFPScore (p\<lparr>duration := Number (Num d1)\<rparr>) t = Inr r1 \<and>
                 calculateFPScore (p\<lparr>duration := Number (Num d2)\<rparr>) t = Inr r2 \<and>
                 score r2 \<le> score r1"
proof -
  have "fst a \<le> fst b \<Longrightarrow> score (finish t a) \<le> score (finish t b)" for a b
    by (simp add: score_finish min_def max_def)
  moreover have "d2 < 10 \<Longrightarrow> d1 < 10" using assms by simp
  ultimately show ?thesis
    using durationContribution_mono [OF assms, of t]
    by (simp add: calculateFPScore_Number [of _ "Num d1"] calculateFPScore_Number [of _ "Num d2"]
          fst_blocks)
qed

lemma score_mono_service:
  assumes "d1 \<le> d2"
  shows "\<exists>r1 r2. service_calculateFPScore t (p\<lparr>duration := Number (Num d1)\<rparr>) = Inr r1 \<and>
                 service_calculateFPScore t (p\<lparr>duration := Number (Num d2)\<rparr>) = Inr r2 \<and>
                 score r2 \<le> score r1"
proof -
  have "fst a \<le> fst b \<Longrightarrow> score (finish t a) \<le> score (finish t b)" for a b
    by (simp add: score_finish min_def max_def)
  then show ?thesis
    using durationContribution_mono [OF assms, of t] wasQuickManualClose_mono [OF assms, of p]
    by (simp add: service_calculateFPScore_Number [of _ "Num d1"]
          service_calculateFPScore_Number [of _ "Num d2"] fst_blocks)
qed

text \<open>
  Claim C9.  For fixed thresholds, what the duration block adds to the score does not
  increase with the duration: for d1 \<le> d2 the contribution at d2 is at most the one at
  d1.  The contribution is 0.35 below veryShortDurationMinutes, 0.20 from there up to
  shortDurationMinutes, and 0 beyond.  Both engines return a result for either duration,
  and the whole score does not increase either when only the duration is raised.
\<close>

theorem duration_contribution_non_increasing:
  assumes "d1 \<le> d2"
  shows "durationContribution t d2 \<le> durationContribution t d1 \<and>
         durationContribution t d1 =
           (if jsLt (Num d1) (veryShortDurationMinutes t) then 35 / 100
            else if jsLt (Num d1) (shortDurationMinutes t) then 20 / 100 else 0) \<and>
         (\<exists>r1 r2. calculateFPScore (p\<lparr>duration := Number (Num d1)\<rparr>) t = Inr r1 \<and>
                   calculateFPScore (p\<lparr>duration := Number (Num d2)\<rparr>) t = Inr r2 \<and>
                   score r2 \<le> score r1) \<and>
         (\<exists>r1 r2. service_calculateFPScore t (p\<lparr>duration := Number (Num d1)\<rparr>) = Inr r1 \<and>
                   service_calculateFPScore t (p\<lparr>duration := Number (Num d2)\<rparr>) = Inr r2 \<and>
                   score r2 \<le> score r1)"
  using durationContribution_mono [OF assms] durationContribution_eq
    score_mono_utils [OF assms] score_mono_service [OF assms]
  by blast

theorem duration_contribution_non_increasing_witness:
  "(3 :: rat) \<le> 10 \<and>
   durationContribution DEFAULT_FP_THRESHOLDS 10 \<le> durationContribution DEFAULT_FP_THRESHOLDS 3 \<and>
   durationContribution DEFAULT_FP_THRESHOLDS 3 = 35 / 100 \<and>
   durationContribution DEFAULT_FP_THRESHOLDS 10 = 20 / 100 \<and>
   durationContribution DEFAULT_FP_THRESHOLDS 15 = 0"
proof -
  have h: "(3 :: rat) \<le> 10" by simp
  have a: "durationContribution DEFAULT_FP_THRESHOLDS 3 = 35 / 100"
    by (simp add: durationContribution_eq DEFAULT_FP_THRESHOLDS_def)
  have b: "durationContribution DEFAULT_FP_THRESHOLDS 10 = 20 / 100"
    by (simp add: durationContribution_eq DEFAULT_FP_THRESHOLDS_def)
  have c: "durationContribution DEFAULT_FP_THRESHOLDS 15 = 0"
    by (simp add: durationContribution_eq DEFAULT_FP_THRESHOLDS_def)
  from duration_contribution_non_increasing [OF h, of DEFAULT_FP_THRESHOLDS scenarioA] h a b c
  show ?thesis by blast
qed

lemma token_Si: "arrayIncludes AUTO_REMEDIATION_VALUES (toLowerCase ''Si'')"
  by code_simp

lemma low_RC: "arrayIncludes LOW_SEVERITY_LEVELS ''RESOURCE_CONTENTION''"
  by (simp add: arrayIncludes_def LOW_SEVERITY_LEVELS_def)

text \<open>
  Claim C5 (scenario A).  A problem with a duration of 3 minutes, Autoremediado = "Si",
  FuncionoAutoRemediacion = "Si", severity RESOURCE_CONTENTION and no comments is scored,
  under the default thresholds, 0.35 + 0.25 + 0.05 + 0.10 = 0.75 and classified
  FALSE_POSITIVE: by the utility function whatever its other fields are, and by the
  service method when the record carries no evidence properties (which that method also
  searches for manual-close keywords).  Both return a result.
\<close>

theorem scenario_A:
  assumes "duration p = Number (Num 3)"
    and "Autoremediado p = Some ''Si''"
    and "FuncionoAutoRemediacion p = Some ''Si''"
    and "severityLevel p = Some ''RESOURCE_CONTENTION''"
    and "commentCountOf p = 0"
    and "commentsOf p = []"
  shows "(\<exists>r. calculateFPScore p DEFAULT_FP_THRESHOLDS = Inr r \<and>
              score r = 35 / 100 + 25 / 100 + 5 / 100 + 10 / 100 \<and>
              score r = 75 / 100 \<and>
              classification r = FALSE_POSITIVE) \<and>
         (evidenceValues p = [] \<longrightarrow>
            (\<exists>r. service_calculateFPScore DEFAULT_FP_THRESHOLDS p = Inr r \<and>
                 score r = 75 / 100 \<and>
                 classification r = FALSE_POSITIVE))"
proof -
  have det: "detectAutoRemediation p = (True, True)"
    using assms(2,3) token_Si by (simp add: detectAutoRemediation_def)
  have sdet: "service_detectAutoRemediation p = (True, True)"
    using assms(2,3) token_Si by (simp add: service_detectAutoRemediation_def)
  have z: "orZero (duration p) = Number (Num 3)" using assms(1) by simp
  let ?a = "lowSeverityAnalysis (severityLevel p)
                (quickCloseOnNumber False (Num 3)
                  (noCommentsAnalysis 0
                    (autoRemediationAnalysis (True, True)
                      (durationOnNumber DEFAULT_FP_THRESHOLDS (Num 3) (0, [])))))"
  have raw: "fst ?a = 75 / 100"
    using assms(4) low_RC
    by (simp add: fst_blocks durationContribution_eq DEFAULT_FP_THRESHOLDS_def)
  have u: "calculateFPScore p DEFAULT_FP_THRESHOLDS = Inr (finish DEFAULT_FP_THRESHOLDS ?a)"
    using assms(5) det by (simp add: calculateFPScore_Number [OF z])
  have s: "evidenceValues p = [] \<Longrightarrow>
           service_calculateFPScore DEFAULT_FP_THRESHOLDS p = Inr (finish DEFAULT_FP_THRESHOLDS ?a)"
    using assms(1,5,6) sdet
    by (simp add: service_calculateFPScore_Number [OF z] wasQuickManualClose_def)
  have f: "fst a = 75 / 100 \<Longrightarrow>
           score (finish DEFAULT_FP_THRESHOLDS a) = 75 / 100 \<and>
           classification (finish DEFAULT_FP_THRESHOLDS a) = FALSE_POSITIVE" for a
    by (simp add: finish_def Let_def classifyByScore_def DEFAULT_FP_THRESHOLDS_def)
  from f [OF raw] u s show ?thesis by simp
qed

theorem scenario_A_witness:
  "duration scenarioA = Number (Num 3) \<and> Autoremediado scenarioA = Some ''Si'' \<and>
   FuncionoAutoRemediacion scenarioA = Some ''Si'' \<and>
   severityLevel scenarioA = Some ''RESOURCE_CONTENTION'' \<and>
   commentCountOf scenarioA = 0 \<and> commentsOf scenarioA = [] \<and> evidenceValues scenarioA = [] \<and>
   map_option score (resultOf (calculateFPScore scenarioA DEFAULT_FP_THRESHOLDS)) = Some (75 / 100) \<and>
   map_option classification (resultOf (calculateFPScore scenarioA DEFAULT_FP_THRESHOLDS))
     = Some FALSE_POSITIVE \<and>
   map_option score (resultOf (service_calculateFPScore DEFAULT_FP_THRESHOLDS scenarioA))
     = Some (75 / 100) \<and>
   map_option classification (resultOf (service_calculateFPScore DEFAULT_FP_THRESHOLDS scenarioA))
     = Some FALSE_POSITIVE"
proof -
  have h1: "duration scenarioA = Number (Num 3)" by (simp add: scenarioA_def)
  have h2: "Autoremediado scenarioA = Some ''Si''" by (simp add: scenarioA_def)
  have h3: "FuncionoAutoRemediacion scenarioA = Some ''Si''" by (simp add: scenarioA_def)
  have h4: "severityLevel scenarioA = Some ''RESOURCE_CONTENTION''" by (simp add: scenarioA_def)
  have h5: "commentCountOf scenarioA = 0" by (simp add: scenarioA_def commentCountOf_def)
  have h6: "commentsOf scenarioA = []" by (simp add: scenarioA_def commentsOf_def)
  have h7: "evidenceValues scenarioA = []" by (simp add: scenarioA_def evidenceValues_def)
  from scenario_A [OF h1 h2 h3 h4 h5 h6] h7
  obtain r r' where "calculateFPScore scenarioA DEFAULT_FP_THRESHOLDS = Inr r"
    "score r = 75 / 100" "classification r = FALSE_POSITIVE"
    "service_calculateFPScore DEFAULT_FP_THRESHOLDS scenarioA = Inr r'"
    "score r' = 75 / 100" "classification r' = FALSE_POSITIVE"
    by blast
  with h1 h2 h3 h4 h5 h6 h7 show ?thesis by simp
qed

lemma wasQuickManualClose_falsy:
  assumes "duration p = Absent \<or> duration p = Number NaN \<or> duration p = Text [] (Num 0)"
  shows "wasQuickManualClose (p\<lparr>duration := Number (Num 0)\<rparr>) = wasQuickManualClose p"
  using assms by (auto simp: wasQuickManualClose_def jsGe_def jsLe_def)

lemma wasQuickManualClose_negative:
  assumes "d < 0"
  shows "wasQuickManualClose (p\<lparr>duration := Number (Num d)\<rparr>)
           = wasQuickManualClose (p\<lparr>duration := Number (Num 0)\<rparr>)"
  using assms by (simp add: wasQuickManualClose_def)

lemma withoutDetails_finish:
  "withoutDetails (finish t a) =
     (min 1 (max 0 (fst a)), classifyByScore (min 1 (max 0 (fst a))) t,
      map (\<lambda>x. (reason x, label x, weight x)) (snd a),
      calculateConfidence (min 1 (max 0 (fst a))) (length (snd a)) t)"
  by (simp add: withoutDetails_def finish_def Let_def)

lemma withoutDetails_codes:
  "codes a = codes b \<Longrightarrow> withoutDetails (finish t a) = withoutDetails (finish t b)"
  by (auto simp: withoutDetails_finish codes_def dest: map_eq_imp_length_eq)

lemma jsLt_negative: "d < 0 \<Longrightarrow> jsLt (Num 0) x \<Longrightarrow> jsLt (Num d) x"
  by (cases x) simp_all

lemma codes_durationOnNumber:
  "d < 0 \<Longrightarrow> jsLt (Num 0) (veryShortDurationMinutes t) \<Longrightarrow>
   codes (durationOnNumber t (Num d) a) = codes (durationOnNumber t (Num 0) a)"
  using jsLt_negative [of d "veryShortDurationMinutes t"]
  by (simp add: codes_def durationOnNumber_def mkReason_def)

lemma codes_cong:
  assumes "codes a = codes b"
  shows "codes (autoRemediationAnalysis st a) = codes (autoRemediationAnalysis st b)"
    and "codes (noCommentsAnalysis n a) = codes (noCommentsAnalysis n b)"
    and "codes (quickCloseOnNumber hit d a) = codes (quickCloseOnNumber hit d' b)"
    and "codes (lowSeverityAnalysis sev a) = codes (lowSeverityAnalysis sev b)"
  using assms
  by (auto simp: codes_def autoRemediationAnalysis_def noCommentsAnalysis_def
        quickCloseOnNumber_def lowSeverityAnalysis_def mkReason_def split: option.splits)

text \<open>The first reason of a result is the duration reason whenever block 1 fires.\<close>

lemma hd_snd_blocks:
  assumes "snd a \<noteq> []"
  shows "hd (snd (autoRemediationAnalysis st a)) = hd (snd a)"
    and "hd (snd (noCommentsAnalysis n a)) = hd (snd a)"
    and "hd (snd (quickCloseOnNumber hit d a)) = hd (snd a)"
    and "hd (snd (lowSeverityAnalysis sev a)) = hd (snd a)"
    and "snd (autoRemediationAnalysis st a) \<noteq> []"
    and "snd (noCommentsAnalysis n a) \<noteq> []"
    and "snd (quickCloseOnNumber hit d a) \<noteq> []"
    and "snd (lowSeverityAnalysis sev a) \<noteq> []"
  using assms
  by (auto simp: autoRemediationAnalysis_def noCommentsAnalysis_def
        quickCloseOnNumber_def lowSeverityAnalysis_def split: option.splits)

lemma durationOnNumber_veryShort:
  assumes "jsLt n (veryShortDurationMinutes t)"
  shows "snd (durationOnNumber t n (0, [])) \<noteq> []"
    and "details (hd (snd (durationOnNumber t n (0, [])))) = durationDetail (toFixedNumber n)"
  using assms by (simp_all add: durationOnNumber_def mkReason_def)

lemma hd_detailTexts_finish:
  "snd a \<noteq> [] \<Longrightarrow> hd (detailTexts (finish t a)) = details (hd (snd a))"
  by (simp add: detailTexts_def reasons_finish hd_map)

lemma toFixed2_negative: "d < 0 \<Longrightarrow> toFixed2 d = ''-'' @ toFixed2 (- d)"
  by (simp add: toFixed2_def Let_def)

lemma toFixed2_zero: "toFixed2 0 = ''0.00''"
  by code_simp

lemma durationDetail_inject [simp]: "durationDetail x = durationDetail y \<longleftrightarrow> x = y"
  by (simp add: durationDetail_def)

lemma negative_utils:
  assumes d: "d < 0"
  shows "\<exists>r r0. calculateFPScore (p\<lparr>duration := Number (Num d)\<rparr>) t = Inr r \<and>
                calculateFPScore (p\<lparr>duration := Number (Num 0)\<rparr>) t = Inr r0 \<and>
                (jsLt (Num 0) (veryShortDurationMinutes t) \<longrightarrow>
                   withoutDetails r = withoutDetails r0 \<and>
                   hd (detailTexts r) = durationDetail (''-'' @ toFixed2 (- d)) \<and>
                   hd (detailTexts r0) = durationDetail ''0.00'' \<and> r \<noteq> r0)"
proof -
  let ?hit = "\<lambda>x. jsLt (Num x) (Num 10) \<and> commentCountOf p > 0 \<and> hasManualCloseKeyword (commentsOf p)"
  let ?a = "\<lambda>x. lowSeverityAnalysis (severityLevel p)
                  (quickCloseOnNumber (?hit x) (Num x)
                     (noCommentsAnalysis (commentCountOf p)
                        (autoRemediationAnalysis (detectAutoRemediation p)
                           (durationOnNumber t (Num x) (0, [])))))"
  have r: "calculateFPScore (p\<lparr>duration := Number (Num x)\<rparr>) t = Inr (finish t (?a x))" for x
    by (simp add: calculateFPScore_Number [of _ "Num x"])
  have hit: "?hit d = ?hit 0" using d by simp
  {
    assume v: "jsLt (Num 0) (veryShortDurationMinutes t)"
    have vd: "jsLt (Num d) (veryShortDurationMinutes t)" by (rule jsLt_negative [OF d v])
    have w: "withoutDetails (finish t (?a d)) = withoutDetails (finish t (?a 0))"
      unfolding hit by (intro withoutDetails_codes codes_cong codes_durationOnNumber [OF d v])
    have hd: "hd (detailTexts (finish t (?a d))) = durationDetail (''-'' @ toFixed2 (- d))"
      using d
      by (simp add: hd_detailTexts_finish hd_snd_blocks durationOnNumber_veryShort [OF vd]
            toFixed2_negative)
    have h0: "hd (detailTexts (finish t (?a 0))) = durationDetail ''0.00''"
      by (simp add: hd_detailTexts_finish hd_snd_blocks durationOnNumber_veryShort [OF v]
            toFixed2_zero)
    have "finish t (?a d) \<noteq> finish t (?a 0)"
    proof
      assume "finish t (?a d) = finish t (?a 0)"
      then have "hd (detailTexts (finish t (?a d))) = hd (detailTexts (finish t (?a 0)))"
        by simp
      then show False unfolding hd h0 by simp
    qed
    note w hd h0 this
  }
  then show ?thesis using r by blast
qed

lemma negative_service:
  assumes d: "d < 0"
  shows "\<exists>r r0. service_calculateFPScore t (p\<lparr>duration := Number (Num d)\<rparr>) = Inr r \<and>
                service_calculateFPScore t (p\<lparr>duration := Number (Num 0)\<rparr>) = Inr r0 \<and>
                (jsLt (Num 0) (veryShortDurationMinutes t) \<longrightarrow>
                   withoutDetails r = withoutDetails r0 \<and>
                   hd (detailTexts r) = durationDetail (''-'' @ toFixed2 (- d)) \<and>
                   hd (detailTexts r0) = durationDetail ''0.00'' \<and> r \<noteq> r0)"
proof -
  let ?hit = "\<lambda>x. wasQuickManualClose (p\<lparr>duration := Number (Num x)\<rparr>)"
  let ?a = "\<lambda>x. lowSeverityAnalysis (severityLevel p)
                  (quickCloseOnNumber (?hit x) (Num x)
                     (noCommentsAnalysis (commentCountOf p)
                        (autoRemediationAnalysis (service_detectAutoRemediation p)
                           (durationOnNumber t (Num x) (0, [])))))"
  have r: "service_calculateFPScore t (p\<lparr>duration := Number (Num x)\<rparr>) = Inr (finish t (?a x))" for x
    by (simp add: service_calculateFPScore_Number [of _ "Num x"])
  have hit: "?hit d = ?hit 0" by (rule wasQuickManualClose_negative [OF d])
  {
    assume v: "jsLt (Num 0) (veryShortDurationMinutes t)"
    have vd: "jsLt (Num d) (veryShortDurationMinutes t)" by (rule jsLt_negative [OF d v])
    have w: "withoutDetails (finish t (?a d)) = withoutDetails (finish t (?a 0))"
      unfolding hit by (intro withoutDetails_codes codes_cong codes_durationOnNumber [OF d v])
    have hd: "hd (detailTexts (finish t (?a d))) = durationDetail (''-'' @ toFixed2 (- d))"
      using d
      by (simp add: hd_detailTexts_finish hd_snd_blocks durationOnNumber_veryShort [OF vd]
            toFixed2_negative)
    have h0: "hd (detailTexts (finish t (?a 0))) = durationDetail ''0.00''"
      by (simp add: hd_detailTexts_finish hd_snd_blocks durationOnNumber_veryShort [OF v]
            toFixed2_zero)
    have "finish t (?a d) \<noteq> finish t (?a 0)"
    proof
      assume "finish t (?a d) = finish t (?a 0)"
      then have "hd (detailTexts (finish t (?a d))) = hd (detailTexts (finish t (?a 0)))"
        by simp
      then show False unfolding hd h0 by simp
    qed
    note w hd h0 this
  }
  then show ?thesis using r by blast
qed

lemma falsy_utils:
  assumes "duration p = Absent \<or> duration p = Number NaN \<or> duration p = Text [] (Num 0)"
  shows "\<exists>r. calculateFPScore p t = Inr r \<and>
             calculateFPScore (p\<lparr>duration := Number (Num 0)\<rparr>) t = Inr r"
proof -
  have z: "orZero (duration p) = Number (Num 0)" using assms by auto
  have "calculateFPScore p t = calculateFPScore (p\<lparr>duration := Number (Num 0)\<rparr>) t"
    using z by (simp add: calculateFPScore_def Let_def)
  then show ?thesis by (simp add: calculateFPScore_Number [of _ "Num 0"])
qed

lemma falsy_service:
  assumes "duration p = Absent \<or> duration p = Number NaN \<or> duration p = Text [] (Num 0)"
  shows "\<exists>r. service_calculateFPScore t p = Inr r \<and>
             service_calculateFPScore t (p\<lparr>duration := Number (Num 0)\<rparr>) = Inr r"
proof -
  have z: "orZero (duration p) = Number (Num 0)" using assms by auto
  have "service_calculateFPScore t p = service_calculateFPScore t (p\<lparr>duration := Number (Num 0)\<rparr>)"
    using z wasQuickManualClose_falsy [OF assms]
    by (simp add: service_calculateFPScore_def Let_def)
  then show ?thesis by (simp add: service_calculateFPScore_Number [of _ "Num 0"])
qed

lemma durationAnalysis_Text:
  "durationAnalysis t (Text s n) a =
     (if jsLt n (veryShortDurationMinutes t) \<or> jsLt n (shortDurationMinutes t)
      then Inl TypeError else Inr a)"
  by (simp add: durationAnalysis_def)

lemma quickManualCloseAnalysis_Text:
  "quickManualCloseAnalysis hit (Text s n) a = (if hit then Inl TypeError else Inr a)"
  by (simp add: quickManualCloseAnalysis_def)

lemma text_utils:
  assumes "duration p = Text s n" and "s \<noteq> []"
  shows "(calculateFPScore p t = Inl TypeError) =
           (jsLt n (veryShortDurationMinutes t) \<or> jsLt n (shortDurationMinutes t) \<or>
            (jsLt n (Num 10) \<and> commentCountOf p > 0 \<and> hasManualCloseKeyword (commentsOf p)))"
  using assms
  by (simp add: calculateFPScore_def Let_def durationAnalysis_Text quickManualCloseAnalysis_Text)

lemma text_service:
  assumes "duration p = Text s n" and "s \<noteq> []"
  shows "(service_calculateFPScore t p = Inl TypeError) =
           (jsLt n (veryShortDurationMinutes t) \<or> jsLt n (shortDurationMinutes t) \<or>
            wasQuickManualClose p)"
  using assms
  by (simp add: service_calculateFPScore_def Let_def durationAnalysis_Text
        quickManualCloseAnalysis_Text)

text \<open>
  Claim C7, as amended.  A problem whose duration field is absent, NaN or the empty string
  is scored by both engines without an error, and exactly as the same problem with
  duration 0.  A negative duration d is not normalised: both engines return a result,
  and when veryShortDurationMinutes is above 0 that result has the score, classification,
  confidence and reason codes, labels and weights of the result for duration 0, but not
  its detail texts: the duration reason prints the negative value, a minus sign before
  the digits of -d, where duration 0 prints 0.00.  A duration stored as a non-empty
  string is not normalised either: the engine throws a TypeError exactly when it builds a
  reason that prints the duration (the string reads below veryShortDurationMinutes or
  shortDurationMinutes, or the quick-manual-close block fires).
\<close>

theorem duration_normalisation:
  "(duration p = Absent \<or> duration p = Number NaN \<or> duration p = Text [] (Num 0) \<longrightarrow>
      (\<exists>r. calculateFPScore p t = Inr r \<and>
           calculateFPScore (p\<lparr>duration := Number (Num 0)\<rparr>) t = Inr r) \<and>
      (\<exists>r. service_calculateFPScore t p = Inr r \<and>
           service_calculateFPScore t (p\<lparr>duration := Number (Num 0)\<rparr>) = Inr r)) \<and>
   (d < 0 \<longrightarrow>
      (\<exists>r r0. calculateFPScore (q\<lparr>duration := Number (Num d)\<rparr>) t = Inr r \<and>
              calculateFPScore (q\<lparr>duration := Number (Num 0)\<rparr>) t = Inr r0 \<and>
              (jsLt (Num 0) (veryShortDurationMinutes t) \<longrightarrow>
                 withoutDetails r = withoutDetails r0 \<and>
                 hd (detailTexts r) = durationDetail (''-'' @ toFixed2 (- d)) \<and>
                 hd (detailTexts r0) = durationDetail ''0.00'' \<and> r \<noteq> r0)) \<and>
      (\<exists>r r0. service_calculateFPScore t (q\<lparr>duration := Number (Num d)\<rparr>) = Inr r \<and>
              service_calculateFPScore t (q\<lparr>duration := Number (Num 0)\<rparr>) = Inr r0 \<and>
              (jsLt (Num 0) (veryShortDurationMinutes t) \<longrightarrow>
                 withoutDetails r = withoutDetails r0 \<and>
                 hd (detailTexts r) = durationDetail (''-'' @ toFixed2 (- d)) \<and>
                 hd (detailTexts r0) = durationDetail ''0.00'' \<and> r \<noteq> r0))) \<and>
   (duration u = Text s n \<and> s \<noteq> [] \<longrightarrow>
      (calculateFPScore u t = Inl TypeError) =
         (jsLt n (veryShortDurationMinutes t) \<or> jsLt n (shortDurationMinutes t) \<or>
          (jsLt n (Num 10) \<and> commentCountOf u > 0 \<and> hasManualCloseKeyword (commentsOf u))) \<and>
      (service_calculateFPScore t u = Inl TypeError) =
         (jsLt n (veryShortDurationMinutes t) \<or> jsLt n (shortDurationMinutes t) \<or>
          wasQuickManualClose u))"
  using falsy_utils [of p t] falsy_service [of p t] negative_utils [of d q t]
    negative_service [of d t q] text_utils [of u s n t] text_service [of u s n t]
  by blast

theorem duration_normalisation_witness:
  "duration absentDuration = Absent \<and>
   map_option detailTexts (resultOf (calculateFPScore absentDuration DEFAULT_FP_THRESHOLDS))
     = map_option detailTexts
         (resultOf (calculateFPScore (absentDuration\<lparr>duration := Number (Num 0)\<rparr>) DEFAULT_FP_THRESHOLDS)) \<and>
   resultOf (calculateFPScore absentDuration DEFAULT_FP_THRESHOLDS) \<noteq> None \<and>
   (- 5 :: rat) < 0 \<and> jsLt (Num 0) (veryShortDurationMinutes DEFAULT_FP_THRESHOLDS) \<and>
   map_option withoutDetails
       (resultOf (service_calculateFPScore DEFAULT_FP_THRESHOLDS (scenarioA\<lparr>duration := Number (Num (- 5))\<rparr>)))
     = map_option withoutDetails
         (resultOf (service_calculateFPScore DEFAULT_FP_THRESHOLDS (scenarioA\<lparr>duration := Number (Num 0)\<rparr>))) \<and>
   duration stringDuration = Text ''3'' (Num 3) \<and> ''3'' \<noteq> [] \<and>
   jsLt (Num 3) (veryShortDurationMinutes DEFAULT_FP_THRESHOLDS) \<and>
   calculateFPScore stringDuration DEFAULT_FP_THRESHOLDS = Inl TypeError \<and>
   service_calculateFPScore DEFAULT_FP_THRESHOLDS stringDuration = Inl TypeError"
proof -
  have h1: "duration absentDuration = Absent" by (simp add: absentDuration_def)
  have h2: "(- 5 :: rat) < 0" by simp
  have h3: "jsLt (Num 0) (veryShortDurationMinutes DEFAULT_FP_THRESHOLDS)"
    by (simp add: DEFAULT_FP_THRESHOLDS_def)
  have h4: "duration stringDuration = Text ''3'' (Num 3) \<and> ''3'' \<noteq> []"
    by (simp add: stringDuration_def)
  have h5: "jsLt (Num 3) (veryShortDurationMinutes DEFAULT_FP_THRESHOLDS)"
    by (simp add: DEFAULT_FP_THRESHOLDS_def)
  note t = duration_normalisation [of absentDuration DEFAULT_FP_THRESHOLDS "- 5" scenarioA
              stringDuration "''3''" "Num 3"]
  from t h1 obtain r where r: "calculateFPScore absentDuration DEFAULT_FP_THRESHOLDS = Inr r"
    "calculateFPScore (absentDuration\<lparr>duration := Number (Num 0)\<rparr>) DEFAULT_FP_THRESHOLDS = Inr r"
    by blast
  from t h2 h3 obtain r' r0 where r': 
    "service_calculateFPScore DEFAULT_FP_THRESHOLDS (scenarioA\<lparr>duration := Number (Num (- 5))\<rparr>) = Inr r'"
    "service_calculateFPScore DEFAULT_FP_THRESHOLDS (scenarioA\<lparr>duration := Number (Num 0)\<rparr>) = Inr r0"
    "withoutDetails r' = withoutDetails r0"
    by blast
  from t h4 h5 have e: "calculateFPScore stringDuration DEFAULT_FP_THRESHOLDS = Inl TypeError"
    "service_calculateFPScore DEFAULT_FP_THRESHOLDS stringDuration = Inl TypeError"
    by blast+
  from h1 h2 h3 h4 h5 r r' e show ?thesis by simp
qed

text \<open>
  Claim C7 as stated fails twice.  For a duration of -5 minutes the result differs from the
  result for duration 0 in the detail text of the duration reason.  For a duration stored
  as the string "3" both engines throw, where duration 0 is scored, and the error of
  that one record ends the analysis of a batch that contains it.
\<close>

theorem duration_normalisation_counterexample:
  "calculateFPScore negativeDuration DEFAULT_FP_THRESHOLDS
     \<noteq> calculateFPScore (negativeDuration\<lparr>duration := Number (Num 0)\<rparr>) DEFAULT_FP_THRESHOLDS \<and>
   map_option detailTexts (resultOf (calculateFPScore negativeDuration DEFAULT_FP_THRESHOLDS))
     = Some [''Duraci'' @ [CHR 0xF3] @ ''n: -5.00 min'',
             ''Auto-remediaci'' @ [CHR 0xF3] @ ''n exitosa detectada'',
             ''Sin comentarios de investigaci'' @ [CHR 0xF3] @ ''n'',
             ''Severidad: RESOURCE_CONTENTION''] \<and>
   map_option detailTexts
       (resultOf (calculateFPScore (negativeDuration\<lparr>duration := Number (Num 0)\<rparr>) DEFAULT_FP_THRESHOLDS))
     = Some [''Duraci'' @ [CHR 0xF3] @ ''n: 0.00 min'',
             ''Auto-remediaci'' @ [CHR 0xF3] @ ''n exitosa detectada'',
             ''Sin comentarios de investigaci'' @ [CHR 0xF3] @ ''n'',
             ''Severidad: RESOURCE_CONTENTION''] \<and>
   calculateFPScore stringDuration DEFAULT_FP_THRESHOLDS = Inl TypeError \<and>
   service_calculateFPScore DEFAULT_FP_THRESHOLDS stringDuration = Inl TypeError \<and>
   map_option score
       (resultOf (calculateFPScore (stringDuration\<lparr>duration := Number (Num 0)\<rparr>) DEFAULT_FP_THRESHOLDS))
     = Some (75 / 100) \<and>
   analyzeProblems DEFAULT_FP_THRESHOLDS [scenarioA, stringDuration] = Inl TypeError"
  by code_simp

text \<open>
  Claim C2, as amended.  The controller rejects a threshold update (HTTP 400, success =
  false) and leaves the stored configuration unchanged whenever the requested
  fpScoreThreshold is below 0 or above 1; so the update { fpScoreThreshold: 1.5 } changes
  nothing and reports failure.  Every other update (fpScoreThreshold missing, or neither
  below 0 nor above 1) is accepted and merged into the stored configuration; the order of
  uncertainThreshold and fpScoreThreshold is not checked.
\<close>

theorem threshold_update_validation:
  "(new_fpScoreThreshold n = Some v \<and> (jsLt v (Num 0) \<or> jsGt v (Num 1)) \<longrightarrow>
      snd (updateThresholds stored n) = stored \<and>
      success (fst (updateThresholds stored n)) = False \<and>
      http_status (fst (updateThresholds stored n)) = 400) \<and>
   (new_fpScoreThreshold n = None \<or>
    (new_fpScoreThreshold n = Some v \<and> \<not> jsLt v (Num 0) \<and> \<not> jsGt v (Num 1)) \<longrightarrow>
      snd (updateThresholds stored n) = setThresholds stored n \<and>
      success (fst (updateThresholds stored n)) = True)"
  by (auto simp: updateThresholds_def Let_def)

theorem threshold_update_validation_witness:
  "new_fpScoreThreshold fpTooHigh = Some (Num (15 / 10)) \<and>
   (jsLt (Num (15 / 10)) (Num 0) \<or> jsGt (Num (15 / 10)) (Num 1)) \<and>
   snd (updateThresholds DEFAULT_FP_THRESHOLDS fpTooHigh) = DEFAULT_FP_THRESHOLDS \<and>
   success (fst (updateThresholds DEFAULT_FP_THRESHOLDS fpTooHigh)) = False \<and>
   http_status (fst (updateThresholds DEFAULT_FP_THRESHOLDS fpTooHigh)) = 400 \<and>
   new_fpScoreThreshold raiseUncertain = None \<and>
   snd (updateThresholds DEFAULT_FP_THRESHOLDS raiseUncertain)
     = setThresholds DEFAULT_FP_THRESHOLDS raiseUncertain \<and>
   success (fst (updateThresholds DEFAULT_FP_THRESHOLDS raiseUncertain)) = True"
proof -
  have h: "new_fpScoreThreshold fpTooHigh = Some (Num (15 / 10)) \<and>
           (jsLt (Num (15 / 10)) (Num 0) \<or> jsGt (Num (15 / 10)) (Num 1))"
    by (simp add: fpTooHigh_def noUpdate_def)
  have k: "new_fpScoreThreshold raiseUncertain = None"
    by (simp add: raiseUncertain_def noUpdate_def)
  from threshold_update_validation [of fpTooHigh "Num (15 / 10)" DEFAULT_FP_THRESHOLDS]
    threshold_update_validation [of raiseUncertain "Num 0" DEFAULT_FP_THRESHOLDS] h k
  show ?thesis by blast
qed

text \<open>
  The range check belongs to the controller's update handler.  Thresholds that arrive with
  an analysis request reach \<^verbatim>\<open>setThresholds\<close> unchecked.
\<close>

lemma runAnalysis_thresholds_unchecked:
  "fpScoreThreshold (runAnalysis_thresholds DEFAULT_FP_THRESHOLDS (Some fpTooHigh)) = Num (15 / 10)"
  by (simp add: runAnalysis_thresholds_def setThresholds_def fpTooHigh_def noUpdate_def)

text \<open>
  Claim C2 as stated fails: the update { uncertainThreshold: 0.9 } on the default
  configuration is accepted and stored, although the resulting uncertainThreshold 0.9
  exceeds the resulting fpScoreThreshold 0.6.
\<close>

theorem threshold_update_counterexample:
  "jsGt (uncertainThreshold (setThresholds DEFAULT_FP_THRESHOLDS raiseUncertain))
        (fpScoreThreshold (setThresholds DEFAULT_FP_THRESHOLDS raiseUncertain)) \<and>
   success (fst (updateThresholds DEFAULT_FP_THRESHOLDS raiseUncertain)) = True \<and>
   snd (updateThresholds DEFAULT_FP_THRESHOLDS raiseUncertain) \<noteq> DEFAULT_FP_THRESHOLDS \<and>
   uncertainThreshold (snd (updateThresholds DEFAULT_FP_THRESHOLDS raiseUncertain)) = Num (9 / 10) \<and>
   fpScoreThreshold (snd (updateThresholds DEFAULT_FP_THRESHOLDS raiseUncertain)) = Num (6 / 10)"
  by (simp add: updateThresholds_def setThresholds_def raiseUncertain_def noUpdate_def
        DEFAULT_FP_THRESHOLDS_def Let_def)






































end
